theory Spec2Isabelle
  imports Main "HOL-Library.Word" "HOL-Library.Multiset"
begin

section \<open>The MINIMALDATA activation test (qa/rpc-tests/minimaldata-activation.py)\<close>

text \<open>
  The script drives one node through the activation of the MINIMALDATA rule. Everything
  it calls in \<^verbatim>\<open>test_framework\<close> and everything the node answers lies outside the
  script; those parts are parameters of the model (the record \<open>framework\<close>). The script's
  own code is translated function by function: \<^verbatim>\<open>getbestblock\<close>,
  \<^verbatim>\<open>build_block\<close>, the three \<^verbatim>\<open>check_for_...\<close> helpers, the closure
  \<^verbatim>\<open>create_fund_and_spend_tx\<close> and \<^verbatim>\<open>run_test\<close>.
\<close>

subsection \<open>Data\<close>

type_synonym byte = "8 word"

text \<open>A \<^verbatim>\<open>CScript\<close> is a byte string.\<close>

type_synonym script = "byte list"

text \<open>Hashes are Python integers below \<open>2 ^ 256\<close>; the script only stores and compares them.\<close>

type_synonym uint256 = nat

text \<open>
  The opcode constants the script imports from \<^verbatim>\<open>test_framework.script\<close>. The comment
  at line 176 names the byte \<open>0x51\<close> as \<^verbatim>\<open>OP_1\<close>, of which \<^verbatim>\<open>OP_TRUE\<close> is the alias.
\<close>

definition OP_TRUE :: byte where
  "OP_TRUE = 0x51"

definition OP_ADD :: byte where
  "OP_ADD = 0x93"

text \<open>\<^verbatim>\<open>CScript([op, ...])\<close> of one-byte opcodes is the string of these bytes.\<close>

definition CScript :: "byte list \<Rightarrow> script" where
  "CScript ops = ops"

record COutPoint =
  outpoint_hash :: "uint256 option"
  outpoint_n :: nat

record CTxIn =
  prevout :: COutPoint
  scriptSig :: script

record CTxOut =
  nValue :: int
  scriptPubKey :: script

text \<open>
  \<^verbatim>\<open>CTransaction\<close>: the attribute \<^verbatim>\<open>sha256\<close> caches the transaction's hash and is
  \<^verbatim>\<open>None\<close> until the transaction is hashed.
\<close>

record CTransaction =
  vin :: "CTxIn list"
  vout :: "CTxOut list"
  tx_sha256 :: "uint256 option"

definition CTransaction_new :: CTransaction where
  "CTransaction_new = \<lparr>vin = [], vout = [], tx_sha256 = None\<rparr>"

text \<open>\<^verbatim>\<open>CBlock\<close>, with the attributes the script reads or writes.\<close>

record CBlock =
  hashPrevBlock :: "uint256 option"
  nTime :: int
  vtx :: "CTransaction list"
  hashMerkleRoot :: uint256
  sha256 :: "uint256 option"

text \<open>
  The exceptions the script can raise itself: a missing dictionary key, an index out of
  range, a call that does not fit the signature, a missing attribute, and a failed
  assertion. The assertions of \<^verbatim>\<open>test_framework\<close> raise the last one too.
\<close>

datatype py_error = KeyError | IndexError | TypeError | AttributeError | AssertionError

text \<open>
  What the script does to the node, to its peer connection and to the log, in the order
  it happens. The keyword arguments of \<^verbatim>\<open>send_blocks_and_test\<close> and
  \<^verbatim>\<open>send_txs_and_test\<close> are \<^verbatim>\<open>success\<close>, \<^verbatim>\<open>expect_ban\<close> and
  \<^verbatim>\<open>reject_reason\<close>; \<open>None\<close> stands for a keyword the call leaves out.
\<close>

datatype event =
    Logging_info string
  | Node_generate int
  | Bootstrap_p2p
  | Send_blocks_and_test "CBlock list" "bool option" "bool option" "string option"
  | Send_txs_and_test "CTransaction list" "bool option" "bool option" "string option"
  | Assert_raises_rpc_error int string CTransaction
  | Assert_equal_getrawmempool "string list"
  | Node_setmocktime int
  | Assert_equal_mediantime int

text \<open>
  Modelled from the spec: the outcome of a submission, the spec's SubmissionResult, "outcome
  tag: Accepted, RejectedNoBan(reasonText), RejectedWithBan(reasonText)". The reason is
  optional here because an expectation may leave it out.
\<close>

datatype submission_result =
  Accepted | RejectedNoBan "string option" | RejectedWithBan "string option"

text \<open>
  The code outside the script. The functions of \<^verbatim>\<open>test_framework\<close> that mutate their
  argument return the mutated object. What the node answers and what the peer connection
  observes depend on everything that happened to the node so far, the events up to the
  call: the three read-only calls of \<^verbatim>\<open>getbestblock\<close>, the state of the connection
  after the handshake (line 85), the outcome the peer observes for a batch of blocks or of
  transactions, the error \<^verbatim>\<open>sendrawtransaction\<close> raises (code and message, or
  \<open>None\<close> when it returns), the mempool, and the median time of
  \<^verbatim>\<open>getblockchaininfo\<close>.
\<close>

record framework =
  calc_sha256 :: "CBlock \<Rightarrow> CBlock"
  create_coinbase :: "int \<Rightarrow> script \<Rightarrow> CTransaction"
  create_block :: "uint256 option \<Rightarrow> CTransaction \<Rightarrow> int \<Rightarrow> CBlock"
  make_conform_to_ctor :: "CBlock \<Rightarrow> CBlock"
  calc_merkle_root :: "CBlock \<Rightarrow> uint256"
  solve :: "CBlock \<Rightarrow> CBlock"
  create_transaction :: "CTransaction \<Rightarrow> nat \<Rightarrow> byte list \<Rightarrow> int \<Rightarrow> script \<Rightarrow> CTransaction"
  pad_tx :: "CTransaction \<Rightarrow> CTransaction"
  rehash :: "CTransaction \<Rightarrow> CTransaction"
  getblockcount :: "event list \<Rightarrow> int"
  getblockhash :: "event list \<Rightarrow> int \<Rightarrow> string"
  getblock :: "event list \<Rightarrow> string \<Rightarrow> string"
  FromHex_CBlock :: "string \<Rightarrow> CBlock"
  connection_state :: "event list \<Rightarrow> string"
  blocks_outcome :: "event list \<Rightarrow> CBlock list \<Rightarrow> submission_result"
  txs_outcome :: "event list \<Rightarrow> CTransaction list \<Rightarrow> submission_result"
  sendrawtransaction :: "event list \<Rightarrow> CTransaction \<Rightarrow> (int \<times> string) option"
  getrawmempool :: "event list \<Rightarrow> string list"
  mediantime :: "event list \<Rightarrow> int"

text \<open>
  The state of the test object: \<^verbatim>\<open>self.block_heights\<close>, a dictionary keyed by the
  value of a block's \<^verbatim>\<open>sha256\<close> attribute, and the events so far.
\<close>

record test_state =
  block_heights :: "uint256 option \<rightharpoonup> int"
  trace :: "event list"

subsection \<open>getbestblock and build\_block (lines 87 to 111)\<close>

definition getbestblock :: "framework \<Rightarrow> test_state \<Rightarrow> CBlock \<times> test_state" where
  "getbestblock env s =
     (let block_height = getblockcount env (trace s);
          blockhash = getblockhash env (trace s) block_height;
          block = FromHex_CBlock env (getblock env (trace s) blockhash);
          block = calc_sha256 env block
      in (block, s\<lparr>block_heights := (block_heights s)(sha256 block \<mapsto> block_height)\<rparr>))"

text \<open>
  \<^verbatim>\<open>build_block\<close> hashes the parent in place, so the result holds the parent as it is
  afterwards, then the new block, then the state. A parent whose hash is not a key of
  \<^verbatim>\<open>block_heights\<close> raises \<^verbatim>\<open>KeyError\<close> at line 101.
\<close>

definition build_block ::
  "framework \<Rightarrow> CBlock \<Rightarrow> CTransaction list \<Rightarrow> int option \<Rightarrow> test_state
     \<Rightarrow> py_error + (CBlock \<times> CBlock \<times> test_state)" where
  "build_block env parent transactions nTime_arg s =
     (let parent = calc_sha256 env parent
      in case block_heights s (sha256 parent) of
           None \<Rightarrow> Inl KeyError
         | Some parent_height \<Rightarrow>
             (let block_height = parent_height + 1;
                  block_time = (case nTime_arg of None \<Rightarrow> nTime parent + 1 | Some t \<Rightarrow> t);
                  block = create_block env (sha256 parent)
                            (create_coinbase env block_height (CScript [OP_TRUE])) block_time;
                  block = block\<lparr>vtx := vtx block @ transactions\<rparr>;
                  block = make_conform_to_ctor env block;
                  block = block\<lparr>hashMerkleRoot := calc_merkle_root env block\<rparr>;
                  block = solve env block
              in Inr (parent, block,
                      s\<lparr>block_heights := (block_heights s)(sha256 block \<mapsto> block_height)\<rparr>)))"

subsection \<open>The fixture factory (lines 152 to 180)\<close>

text \<open>
  The closure \<^verbatim>\<open>create_fund_and_spend_tx\<close> reads and updates two lists of
  \<^verbatim>\<open>run_test\<close>: \<^verbatim>\<open>spendable_outputs\<close> and \<^verbatim>\<open>fundings\<close>.
\<close>

record factory_state =
  spendable_outputs :: "CTransaction list"
  fundings :: "CTransaction list"

text \<open>Lines 162 to 164: the funding transaction, padded and hashed.\<close>

definition fund_tx :: "framework \<Rightarrow> CTransaction \<Rightarrow> int \<Rightarrow> CTransaction" where
  "fund_tx env spendfrom value =
     rehash env (pad_tx env (create_transaction env spendfrom 0 [] value (CScript [OP_ADD])))"

text \<open>
  Lines 168 to 176: the spending transaction before it is padded and hashed. Line 175
  assigns to \<^verbatim>\<open>txspend.vin[0]\<close>, which raises \<^verbatim>\<open>IndexError\<close> on an empty list.
\<close>

definition spend_tx :: "CTransaction \<Rightarrow> int \<Rightarrow> py_error + CTransaction" where
  "spend_tx txfund value =
     (let txspend = CTransaction_new;
          txspend = txspend\<lparr>vout := vout txspend
                      @ [\<lparr>nValue = value - 1000, scriptPubKey = CScript [OP_TRUE]\<rparr>]\<rparr>;
          txspend = txspend\<lparr>vin := vin txspend
                      @ [\<lparr>prevout = \<lparr>outpoint_hash = tx_sha256 txfund, outpoint_n = 0\<rparr>,
                          scriptSig = []\<rparr>]\<rparr>
      in case vin txspend of
           [] \<Rightarrow> Inl IndexError
         | in0 # ins \<Rightarrow>
             Inr (txspend\<lparr>vin := in0\<lparr>scriptSig := CScript [0x01, 0x01, 0x51]\<rparr> # ins\<rparr>))"

text \<open>
  \<^verbatim>\<open>list.pop()\<close> takes the last entry and raises \<^verbatim>\<open>IndexError\<close> on an empty
  list; so does \<^verbatim>\<open>spendfrom.vout[0]\<close> when the source has no output.
\<close>

definition create_fund_and_spend_tx ::
  "framework \<Rightarrow> factory_state \<Rightarrow> py_error + (CTransaction \<times> factory_state)" where
  "create_fund_and_spend_tx env f =
     (if spendable_outputs f = [] then Inl IndexError
      else
        (let spendfrom = last (spendable_outputs f);
             f = f\<lparr>spendable_outputs := butlast (spendable_outputs f)\<rparr>
         in case vout spendfrom of
              [] \<Rightarrow> Inl IndexError
            | out0 # outs \<Rightarrow>
                (let value = nValue out0;
                     txfund = fund_tx env spendfrom value;
                     f = f\<lparr>fundings := fundings f @ [txfund]\<rparr>
                 in case spend_tx txfund value of
                      Inl e \<Rightarrow> Inl e
                    | Inr txspend \<Rightarrow> Inr (rehash env (pad_tx env txspend), f))))"

text \<open>Calling the factory \<open>k\<close> times in a row, as lines 183 to 185 do three times.\<close>

fun create_many ::
  "framework \<Rightarrow> nat \<Rightarrow> factory_state \<Rightarrow> py_error + (CTransaction list \<times> factory_state)" where
  "create_many env 0 f = Inr ([], f)"
| "create_many env (Suc k) f =
     (case create_fund_and_spend_tx env f of
        Inl e \<Rightarrow> Inl e
      | Inr (tx, f') \<Rightarrow>
          (case create_many env k f' of
             Inl e \<Rightarrow> Inl e
           | Inr (txs, f'') \<Rightarrow> Inr (tx # txs, f'')))"

subsection \<open>Reading a script\<close>

text \<open>
  Modelled from the spec: the wire format of a script, which
  \<^verbatim>\<open>test_framework.script\<close> and the node read and the script under test does not. The
  spec speaks of the "opcode-for-push-of-length-1" and of the "1-byte minimal-push opcode";
  line 176 names the two in the bytes it writes, \<^verbatim>\<open>PUSH1(0x01) OP_1\<close>. A byte from 1
  to 75 pushes as many bytes as it says, the opcodes \<open>0x4c\<close>, \<open>0x4d\<close> and \<open>0x4e\<close>
  take the length from the next one, two or four bytes, and every other byte is an
  operation of its own; \<open>0x51\<close> to \<open>0x60\<close> push the numbers 1 to 16.
\<close>

datatype script_op = Push_op byte "byte list" | Plain_op byte

definition take_push :: "byte \<Rightarrow> nat \<Rightarrow> script \<Rightarrow> (script_op \<times> script) option" where
  "take_push opcode n bs =
     (if length bs < n then None else Some (Push_op opcode (take n bs), drop n bs))"

fun next_op :: "script \<Rightarrow> (script_op \<times> script) option" where
  "next_op [] = None"
| "next_op (b # bs) =
     (if 1 \<le> unat b \<and> unat b \<le> 75 then take_push b (unat b) bs
      else if b = 0x4c then
        (case bs of l0 # bs' \<Rightarrow> take_push b (unat l0) bs' | _ \<Rightarrow> None)
      else if b = 0x4d then
        (case bs of l0 # l1 # bs' \<Rightarrow> take_push b (unat l0 + 256 * unat l1) bs' | _ \<Rightarrow> None)
      else if b = 0x4e then
        (case bs of l0 # l1 # l2 # l3 # bs' \<Rightarrow>
           take_push b (unat l0 + 256 * unat l1 + 65536 * unat l2 + 16777216 * unat l3) bs'
         | _ \<Rightarrow> None)
      else Some (Plain_op b, bs))"

lemma next_op_shorter: "next_op bs = Some (opr, rest) \<Longrightarrow> length rest < length bs"
  by (cases bs) (auto simp: take_push_def split: if_splits list.splits)

function script_ops :: "script \<Rightarrow> script_op list option" where
  "script_ops [] = Some []"
| "script_ops (b # bs) =
     (case next_op (b # bs) of
        None \<Rightarrow> None
      | Some (opr, rest) \<Rightarrow> map_option ((#) opr) (script_ops rest))"
  by pat_completeness auto
termination
  by (relation "measure length") (auto dest: next_op_shorter simp del: next_op.simps)

text \<open>What an operation leaves on the stack, when it is a push, and the bytes it takes.\<close>

fun pushed_value :: "script_op \<Rightarrow> byte list option" where
  "pushed_value (Push_op opcode d) = Some d"
| "pushed_value (Plain_op b) =
     (if b = 0 then Some []
      else if 0x51 \<le> b \<and> b \<le> 0x60 then Some [b - 0x50]
      else None)"

fun encoded_length :: "script_op \<Rightarrow> nat" where
  "encoded_length (Push_op opcode d) =
     (if opcode = 0x4c then 2 else if opcode = 0x4d then 3 else if opcode = 0x4e then 5 else 1)
     + length d"
| "encoded_length (Plain_op b) = 1"

text \<open>
  The push the claim describes, in its words: three bytes, the opcode for a push of length
  1, a length byte and the value byte.
\<close>

definition explicit_three_byte_push :: "byte \<Rightarrow> script" where
  "explicit_three_byte_push v = [0x01, 0x01, v]"

text \<open>The unlocking scripts of the transaction a call of the factory returns.\<close>

definition unlocking_scripts :: "py_error + (CTransaction \<times> factory_state) \<Rightarrow> script list" where
  "unlocking_scripts r =
     (case r of Inl e \<Rightarrow> [] | Inr (txspend, f) \<Rightarrow> map scriptSig (vin txspend))"

text \<open>
  What the theorems on the returned transaction ask of \<^verbatim>\<open>pad_tx\<close> and
  \<^verbatim>\<open>rehash\<close>: padding adds outputs at the end and hashing changes neither list.
\<close>

definition keeps_inputs :: "framework \<Rightarrow> bool" where
  "keeps_inputs env = (\<forall>t. vin (pad_tx env t) = vin t \<and> vin (rehash env t) = vin t)"

definition keeps_outputs :: "framework \<Rightarrow> bool" where
  "keeps_outputs env =
     (\<forall>t. (\<exists>extra. vout (pad_tx env t) = vout t @ extra) \<and> vout (rehash env t) = vout t)"

subsection \<open>Median time past\<close>

text \<open>The activation time the script passes to the node (line 42).\<close>

definition NOV2019_START_TIME :: int where
  "NOV2019_START_TIME = 2000000000"

text \<open>
  Modelled from the spec: the median time past, which the node computes and the script
  only reads back (\<^verbatim>\<open>getblockchaininfo()['mediantime']\<close>, lines 226 and 238); the
  node's code is not under src/. The spec: "median of the timestamps of the last 11
  blocks", "the sorted median". The argument lists the timestamps of the chain, the tip
  last.
\<close>

definition median_time_past :: "int list \<Rightarrow> int option" where
  "median_time_past timestamps =
     (let window = drop (length timestamps - 11) timestamps
      in if window = [] then None else Some (sort window ! (length window div 2)))"

text \<open>
  The timestamps the loop of lines 222 to 224 gives to \<^verbatim>\<open>build_block\<close>, for
  \<^verbatim>\<open>i in range(-1, 5)\<close>.
\<close>

definition crossing_times :: "int list" where
  "crossing_times = map (\<lambda>i. NOV2019_START_TIME + i) [-1, 0, 1, 2, 3, 4]"

text \<open>Eleven earlier blocks, one second apart in November 2019.\<close>

definition plain_old_times :: "int list" where
  "plain_old_times = map (\<lambda>i. 1573000000 + i) [1, 2, 3, 4, 5, 6, 7, 8, 9, 10, 11]"

subsection \<open>The helpers of the scenario (lines 47 to 55 and 113 to 128)\<close>

definition MINIMALPUSH_ERROR :: string where
  "MINIMALPUSH_ERROR = ''non-mandatory-script-verify-flag (Data push larger than necessary)''"

definition BADSIGNATURE_ERROR :: string where
  "BADSIGNATURE_ERROR = ''bad-blk-signatures''"

text \<open>The format \<^verbatim>\<open>{:d}\<close> of an integer.\<close>

fun format_d_nat :: "nat \<Rightarrow> string" where
  "format_d_nat n =
     (if n < 10 then [''0123456789'' ! n]
      else format_d_nat (n div 10) @ [''0123456789'' ! (n mod 10)])"

definition format_d :: "int \<Rightarrow> string" where
  "format_d i = (if i < 0 then CHR ''-'' # format_d_nat (nat (- i)) else format_d_nat (nat i))"

text \<open>
  A Python text value is a \<^verbatim>\<open>str\<close> or a \<^verbatim>\<open>bytes\<close>; only the second has the
  method \<^verbatim>\<open>decode\<close>.
\<close>

datatype py_text = Py_str string | Py_bytes string

text \<open>
  \<^verbatim>\<open>rpc_error\<close> takes keyword arguments only: a call with a positional argument, or
  without one of the two keywords, raises \<^verbatim>\<open>TypeError\<close> before the body runs. The
  body calls \<^verbatim>\<open>reject_reason.decode()\<close>, which raises \<^verbatim>\<open>AttributeError\<close> on a
  \<^verbatim>\<open>str\<close>.
\<close>

definition rpc_error :: "py_text list \<Rightarrow> int option \<Rightarrow> py_text option \<Rightarrow> py_error + string" where
  "rpc_error positional reject_code reject_reason =
     (if positional \<noteq> [] then Inl TypeError
      else case (reject_code, reject_reason) of
             (Some code, Some (Py_bytes reason)) \<Rightarrow>
               Inr (reason @ '' (code '' @ format_d code @ '')'')
           | (Some code, Some (Py_str reason)) \<Rightarrow> Inl AttributeError
           | _ \<Rightarrow> Inl TypeError)"

text \<open>
  How a statement of \<^verbatim>\<open>run_test\<close> ends: it goes on to the next one with a value, the
  function returns, or an exception leaves it. Each holds the state at that point.
\<close>

datatype 'a flow = Continue 'a test_state | Returned test_state | Raised py_error test_state

fun final_state :: "'a flow \<Rightarrow> test_state" where
  "final_state (Continue a s) = s"
| "final_state (Returned s) = s"
| "final_state (Raised e s) = s"

fun then_do :: "'a flow \<Rightarrow> ('a \<Rightarrow> test_state \<Rightarrow> 'b flow) \<Rightarrow> 'b flow" where
  "then_do (Continue a s) f = f a s"
| "then_do (Returned s) f = Returned s"
| "then_do (Raised e s) f = Raised e s"

text \<open>
  Modelled from the spec: the outcome a call of \<^verbatim>\<open>send_blocks_and_test\<close> or
  \<^verbatim>\<open>send_txs_and_test\<close> expects, as the spec's SubmissionResult (Accepted,
  RejectedNoBan, RejectedWithBan). The two methods are in \<^verbatim>\<open>test_framework.mininode\<close>, not
  under src/. A keyword the call leaves out has the method's default, success and no ban:
  the call of line 213 passes none and the script logs it as "Successfully mine nonstandard
  transaction".
\<close>

definition expected_result ::
  "bool option \<Rightarrow> bool option \<Rightarrow> string option \<Rightarrow> submission_result" where
  "expected_result success expect_ban reject_reason =
     (if (case success of None \<Rightarrow> True | Some b \<Rightarrow> b) then Accepted
      else if (case expect_ban of None \<Rightarrow> False | Some b \<Rightarrow> b) then RejectedWithBan reject_reason
      else RejectedNoBan reject_reason)"

text \<open>
  Modelled from the spec: when the observed outcome meets the expected one. The spec's
  contract of \<^verbatim>\<open>submit\<close>: "failing the scenario (not silently continuing) if the
  observed outcome's class or reason text disagrees with expectations", the expected
  reason being optional.
\<close>

fun meets :: "submission_result \<Rightarrow> submission_result \<Rightarrow> bool" where
  "meets Accepted observed = (observed = Accepted)"
| "meets (RejectedNoBan reason) observed =
     (case observed of
        RejectedNoBan seen \<Rightarrow> reason = None \<or> seen = reason
      | _ \<Rightarrow> False)"
| "meets (RejectedWithBan reason) observed =
     (case observed of
        RejectedWithBan seen \<Rightarrow> reason = None \<or> seen = reason
      | _ \<Rightarrow> False)"

text \<open>
  Modelled from the spec: the spec's Ban, "the harness's observable signal that a peer
  connection was closed by the node"; "a ban is inferred when the peer connection is
  observed to be closed by the remote side after submission".
\<close>

fun peer_connection_closed :: "submission_result \<Rightarrow> bool" where
  "peer_connection_closed (RejectedWithBan reason) = True"
| "peer_connection_closed (RejectedNoBan reason) = False"
| "peer_connection_closed Accepted = False"

text \<open>
  Modelled from the spec: whether the assertion inside a call holds, for what the node
  answers after the events so far. The assertions are those of \<^verbatim>\<open>test_framework\<close>
  (\<^verbatim>\<open>send_blocks_and_test\<close>, \<^verbatim>\<open>send_txs_and_test\<close>,
  \<^verbatim>\<open>assert_raises_rpc_error\<close>, \<^verbatim>\<open>assert_equal\<close>), not under src/, and the
  \<^verbatim>\<open>assert\<close> of line 85. The direct channel "surfaces a structured error (numeric code
  + message)", which has to be the expected one. Writing to the log, generating blocks and
  setting the clock assert nothing.
\<close>

fun passes :: "framework \<Rightarrow> event list \<Rightarrow> event \<Rightarrow> bool" where
  "passes env tr Bootstrap_p2p = (connection_state env tr = ''connected'')"
| "passes env tr (Send_blocks_and_test blocks success expect_ban reject_reason) =
     meets (expected_result success expect_ban reject_reason) (blocks_outcome env tr blocks)"
| "passes env tr (Send_txs_and_test txs success expect_ban reject_reason) =
     meets (expected_result success expect_ban reject_reason) (txs_outcome env tr txs)"
| "passes env tr (Assert_raises_rpc_error code message tx) =
     (sendrawtransaction env tr tx = Some (code, message))"
| "passes env tr (Assert_equal_getrawmempool expected) = (getrawmempool env tr = expected)"
| "passes env tr (Assert_equal_mediantime expected) = (mediantime env tr = expected)"
| "passes env tr (Logging_info message) = True"
| "passes env tr (Node_generate k) = True"
| "passes env tr (Node_setmocktime t) = True"

text \<open>
  A call into the node, the peer connection or the log is recorded in the trace. When the
  assertion inside the call fails, the run stops there with an \<^verbatim>\<open>AssertionError\<close>,
  the trace holding the call that failed as its last event.
\<close>

definition call :: "framework \<Rightarrow> event \<Rightarrow> test_state \<Rightarrow> unit flow" where
  "call env e s =
     (if passes env (trace s) e then Continue () (s\<lparr>trace := trace s @ [e]\<rparr>)
      else Raised AssertionError (s\<lparr>trace := trace s @ [e]\<rparr>))"

definition call_getbestblock :: "framework \<Rightarrow> test_state \<Rightarrow> CBlock flow" where
  "call_getbestblock env s = (case getbestblock env s of (block, s') \<Rightarrow> Continue block s')"

definition call_build_block ::
  "framework \<Rightarrow> CBlock \<Rightarrow> CTransaction list \<Rightarrow> int option \<Rightarrow> test_state
     \<Rightarrow> (CBlock \<times> CBlock) flow" where
  "call_build_block env parent transactions nTime_arg s =
     (case build_block env parent transactions nTime_arg s of
        Inl e \<Rightarrow> Raised e s
      | Inr (parent', block, s') \<Rightarrow> Continue (parent', block) s')"

definition call_factory ::
  "framework \<Rightarrow> factory_state \<Rightarrow> test_state \<Rightarrow> (CTransaction \<times> factory_state) flow" where
  "call_factory env f s =
     (case create_fund_and_spend_tx env f of
        Inl e \<Rightarrow> Raised e s
      | Inr (txspend, f') \<Rightarrow> Continue (txspend, f') s)"

text \<open>
  Lines 80 to 85: the connection is opened, and the \<^verbatim>\<open>assert\<close> of line 85 fails when
  its state is not \<^verbatim>\<open>connected\<close> after the handshake.
\<close>

definition bootstrap_p2p :: "framework \<Rightarrow> test_state \<Rightarrow> unit flow" where
  "bootstrap_p2p env s = call env Bootstrap_p2p s"

definition check_for_ban_on_rejected_tx ::
  "framework \<Rightarrow> CTransaction \<Rightarrow> string option \<Rightarrow> test_state \<Rightarrow> unit flow" where
  "check_for_ban_on_rejected_tx env tx reject_reason s =
     call env (Send_txs_and_test [tx] (Some False) (Some True) reject_reason) s"

definition check_for_no_ban_on_rejected_tx ::
  "framework \<Rightarrow> CTransaction \<Rightarrow> string \<Rightarrow> test_state \<Rightarrow> unit flow" where
  "check_for_no_ban_on_rejected_tx env tx reject_reason s =
     call env (Send_txs_and_test [tx] (Some False) (Some False) (Some reject_reason)) s"

definition check_for_ban_on_rejected_block ::
  "framework \<Rightarrow> CBlock \<Rightarrow> string option \<Rightarrow> test_state \<Rightarrow> unit flow" where
  "check_for_ban_on_rejected_block env block reject_reason s =
     call env (Send_blocks_and_test [block] (Some False) (Some True) reject_reason) s"

subsection \<open>run\_test (lines 130 to 258)\<close>

text \<open>
  The loops of lines 140 to 142 and 222 to 224: each turn builds on the tip and appends the
  new block to \<^verbatim>\<open>blocks\<close>. From the second turn on the parent is the last entry of
  \<^verbatim>\<open>blocks\<close>, the same object, so the entry is the parent as \<^verbatim>\<open>build_block\<close>
  leaves it.
\<close>

fun build_loop ::
  "framework \<Rightarrow> int option list \<Rightarrow> CBlock \<Rightarrow> CBlock list \<Rightarrow> test_state
     \<Rightarrow> (CBlock \<times> CBlock list) flow" where
  "build_loop env [] tip blocks s = Continue (tip, blocks) s"
| "build_loop env (t # ts) tip blocks s =
     then_do (call_build_block env tip [] t s) (\<lambda>(parent, tip) s.
       build_loop env ts tip
         ((if blocks = [] then [] else butlast blocks @ [parent]) @ [tip]) s)"

text \<open>Line 144: \<^verbatim>\<open>[block.vtx[0] for block in blocks]\<close>.\<close>

fun first_txs :: "CBlock list \<Rightarrow> py_error + CTransaction list" where
  "first_txs [] = Inr []"
| "first_txs (b # bs) =
     (case vtx b of
        [] \<Rightarrow> Inl IndexError
      | t # ts \<Rightarrow> (case first_txs bs of Inl e \<Rightarrow> Inl e | Inr txs \<Rightarrow> Inr (t # txs)))"

text \<open>Lines 131 to 149.\<close>

definition setup_blocks :: "framework \<Rightarrow> test_state \<Rightarrow> (CBlock \<times> CTransaction list) flow" where
  "setup_blocks env s =
     then_do (call env (Node_generate 1) s) (\<lambda>_ s.
     then_do (bootstrap_p2p env s) (\<lambda>_ s.
     then_do (call_getbestblock env s) (\<lambda>tip s.
     then_do (call env (Logging_info ''Create some blocks with OP_1 coinbase for spending.'') s) (\<lambda>_ s.
     then_do (build_loop env (replicate 10 None) tip [] s) (\<lambda>(tip, blocks) s.
     then_do (call env (Send_blocks_and_test blocks (Some True) None None) s) (\<lambda>_ s.
     case first_txs blocks of
       Inl e \<Rightarrow> Raised e s
     | Inr spendable \<Rightarrow>
         then_do (call env (Logging_info ''Mature the blocks and get out of IBD.'') s) (\<lambda>_ s.
         then_do (call env (Node_generate 100) s) (\<lambda>_ s.
         then_do (call_getbestblock env s) (\<lambda>tip s.
         Continue (tip, spendable) s)))))))))"

text \<open>Lines 151 to 188.\<close>

definition fund_fixtures ::
  "framework \<Rightarrow> CBlock \<Rightarrow> CTransaction list \<Rightarrow> test_state
     \<Rightarrow> (CBlock \<times> CTransaction \<times> CTransaction \<times> CTransaction) flow" where
  "fund_fixtures env tip spendable s =
     then_do (call env (Logging_info ''Setting up spends to test and mining the fundings.'') s) (\<lambda>_ s.
     then_do (call_factory env \<lparr>spendable_outputs = spendable, fundings = []\<rparr> s)
       (\<lambda>(nonminimaltx, f) s.
     then_do (call_factory env f s) (\<lambda>(nonminimaltx_2, f) s.
     then_do (call_factory env f s) (\<lambda>(nonminimaltx_3, f) s.
     then_do (call_build_block env tip (fundings f) None s) (\<lambda>(parent, tip) s.
     then_do (call env (Send_blocks_and_test [tip] None None None) s) (\<lambda>_ s.
     Continue (tip, nonminimaltx, nonminimaltx_2, nonminimaltx_3) s))))))"

text \<open>Lines 190 to 213.\<close>

definition preupgrade_tests ::
  "framework \<Rightarrow> CBlock \<Rightarrow> CTransaction \<Rightarrow> CTransaction \<Rightarrow> CTransaction \<Rightarrow> test_state
     \<Rightarrow> CBlock flow" where
  "preupgrade_tests env tip nonminimaltx nonminimaltx_2 nonminimaltx_3 s =
     then_do (call env (Logging_info ''Start preupgrade tests'') s) (\<lambda>_ s.
     then_do (call env (Logging_info ''Sending rejected transactions via RPC'') s) (\<lambda>_ s.
     then_do (call env (Assert_raises_rpc_error (-26) MINIMALPUSH_ERROR nonminimaltx) s) (\<lambda>_ s.
     then_do (call env (Assert_raises_rpc_error (-26) MINIMALPUSH_ERROR nonminimaltx_2) s) (\<lambda>_ s.
     then_do (call env (Assert_raises_rpc_error (-26) MINIMALPUSH_ERROR nonminimaltx_3) s) (\<lambda>_ s.
     then_do (call env (Logging_info ''Sending rejected transactions via net (no banning)'') s) (\<lambda>_ s.
     then_do (check_for_no_ban_on_rejected_tx env nonminimaltx MINIMALPUSH_ERROR s) (\<lambda>_ s.
     then_do (check_for_no_ban_on_rejected_tx env nonminimaltx_2 MINIMALPUSH_ERROR s) (\<lambda>_ s.
     then_do (check_for_no_ban_on_rejected_tx env nonminimaltx_3 MINIMALPUSH_ERROR s) (\<lambda>_ s.
     then_do (call env (Assert_equal_getrawmempool []) s) (\<lambda>_ s.
     then_do (call env (Logging_info ''Successfully mine nonstandard transaction'') s) (\<lambda>_ s.
     then_do (call_build_block env tip [nonminimaltx] None s) (\<lambda>(parent, tip) s.
     then_do (call env (Send_blocks_and_test [tip] None None None) s) (\<lambda>_ s.
     Continue tip s)))))))))))))"

text \<open>Lines 217 to 227.\<close>

definition approach_activation :: "framework \<Rightarrow> CBlock \<Rightarrow> test_state \<Rightarrow> CBlock flow" where
  "approach_activation env tip s =
     then_do (call env (Logging_info ''Approach to just before upgrade activation'') s) (\<lambda>_ s.
     then_do (call env (Node_setmocktime NOV2019_START_TIME) s) (\<lambda>_ s.
     then_do (build_loop env (map Some crossing_times) tip [] s) (\<lambda>(tip, blocks) s.
     then_do (call env (Send_blocks_and_test blocks None None None) s) (\<lambda>_ s.
     then_do (call env (Assert_equal_mediantime (NOV2019_START_TIME - 1)) s) (\<lambda>_ s.
     Continue tip s)))))"

text \<open>Lines 232 to 239.\<close>

definition mine_activation_block ::
  "framework \<Rightarrow> CBlock \<Rightarrow> CTransaction \<Rightarrow> test_state \<Rightarrow> CBlock flow" where
  "mine_activation_block env tip nonminimaltx_2 s =
     then_do (call env (Logging_info
       ''Mine the activation block itself, including a minimaldata violation at the last possible moment'') s)
       (\<lambda>_ s.
     then_do (call_build_block env tip [nonminimaltx_2] None s) (\<lambda>(parent, tip) s.
     then_do (call env (Send_blocks_and_test [tip] None None None) s) (\<lambda>_ s.
     then_do (call env (Logging_info ''We have activated!'') s) (\<lambda>_ s.
     then_do (call env (Assert_equal_mediantime NOV2019_START_TIME) s) (\<lambda>_ s.
     Continue tip s)))))"

text \<open>
  Lines 244 to 248, to the \<^verbatim>\<open>return\<close>. The new block is not assigned to
  \<^verbatim>\<open>tip\<close>, which stays the parent.
\<close>

definition post_activation ::
  "framework \<Rightarrow> CBlock \<Rightarrow> CTransaction \<Rightarrow> test_state \<Rightarrow> CBlock flow" where
  "post_activation env tip nonminimaltx_3 s =
     then_do (call env (Logging_info
       ''Trying to mine a minimaldata violation, but we are just barely too late'') s) (\<lambda>_ s.
     then_do (call_build_block env tip [nonminimaltx_3] None s) (\<lambda>(tip, block) s.
     then_do (check_for_ban_on_rejected_block env block (Some BADSIGNATURE_ERROR) s) (\<lambda>_ s.
     Returned s)))"

text \<open>
  Lines 249 to 258, the statements after the \<^verbatim>\<open>return\<close>. Line 251 calls
  \<^verbatim>\<open>rpc_error\<close> with one positional argument, the \<^verbatim>\<open>str\<close> of line 47, while the
  arguments of \<^verbatim>\<open>assert_raises_rpc_error\<close> are evaluated.
\<close>

definition after_return ::
  "framework \<Rightarrow> CBlock \<Rightarrow> CTransaction \<Rightarrow> test_state \<Rightarrow> unit flow" where
  "after_return env tip nonminimaltx_3 s =
     then_do (call env (Logging_info
       ''If we try to submit it by mempool or RPC we still aren't banned'') s) (\<lambda>_ s.
     case rpc_error [Py_str MINIMALPUSH_ERROR] None None of
       Inl e \<Rightarrow> Raised e s
     | Inr message \<Rightarrow>
         then_do (call env (Assert_raises_rpc_error (-26) message nonminimaltx_3) s) (\<lambda>_ s.
         then_do (check_for_no_ban_on_rejected_tx env nonminimaltx_3 MINIMALPUSH_ERROR s) (\<lambda>_ s.
         then_do (call env (Logging_info ''Mine a normal block'') s) (\<lambda>_ s.
         then_do (call_build_block env tip [] None s) (\<lambda>(parent, tip) s.
         then_do (call env (Send_blocks_and_test [tip] None None None) s) (\<lambda>_ s.
         Returned s))))))"

text \<open>
  \<^verbatim>\<open>set_test_params\<close> starts with an empty \<^verbatim>\<open>block_heights\<close> (line 69).
\<close>

definition initial_state :: test_state where
  "initial_state = \<lparr>block_heights = Map.empty, trace = []\<rparr>"

definition run_test :: "framework \<Rightarrow> unit flow" where
  "run_test env =
     then_do (setup_blocks env initial_state) (\<lambda>(tip, spendable) s.
     then_do (fund_fixtures env tip spendable s)
       (\<lambda>(tip, nonminimaltx, nonminimaltx_2, nonminimaltx_3) s.
     then_do (preupgrade_tests env tip nonminimaltx nonminimaltx_2 nonminimaltx_3 s) (\<lambda>tip s.
     then_do (approach_activation env tip s) (\<lambda>tip s.
     then_do (mine_activation_block env tip nonminimaltx_2 s) (\<lambda>tip s.
     then_do (post_activation env tip nonminimaltx_3 s) (\<lambda>tip s.
     after_return env tip nonminimaltx_3 s))))))"

subsection \<open>The block a call of build\_block returns\<close>

text \<open>
  Lines 100 and 102 to 109 of \<^verbatim>\<open>build_block\<close> on their own: the block built on a
  parent, for the height found for it.
\<close>

definition built_block ::
  "framework \<Rightarrow> CBlock \<Rightarrow> int \<Rightarrow> CTransaction list \<Rightarrow> int option \<Rightarrow> CBlock" where
  "built_block env parent block_height transactions nTime_arg =
     (let parent = calc_sha256 env parent;
          block_time = (case nTime_arg of None \<Rightarrow> nTime parent + 1 | Some t \<Rightarrow> t);
          block = create_block env (sha256 parent)
                    (create_coinbase env block_height (CScript [OP_TRUE])) block_time;
          block = block\<lparr>vtx := vtx block @ transactions\<rparr>;
          block = make_conform_to_ctor env block;
          block = block\<lparr>hashMerkleRoot := calc_merkle_root env block\<rparr>
      in solve env block)"

subsection \<open>A plain instance of the framework\<close>

text \<open>
  Blocks and transactions built field by field, with small arithmetic stand-ins for the
  hashes, and a node that keeps the timestamps of its chain. The theorems below hold for
  every framework; this one serves to run them on explicit inputs.
\<close>

definition plain_tx_hash :: "CTransaction \<Rightarrow> uint256" where
  "plain_tx_hash t = 1 + length (vin t) + nat \<bar>sum_list (map nValue (vout t))\<bar>"

definition plain_block_hash :: "CBlock \<Rightarrow> uint256" where
  "plain_block_hash b = nat \<bar>nTime b\<bar> + length (vtx b)"

text \<open>
  Modelled from the spec: the rule of the validation engine, which is not under src/, as
  the plain node has it. The spec names it "minimal-encoding of script data pushes
  (MINIMALDATA)": no empty push, no one-byte push of a number that has an opcode of its
  own, and the shortest push opcode for the length.
\<close>

fun minimal_push :: "script_op \<Rightarrow> bool" where
  "minimal_push (Push_op opcode d) =
     (if d = [] then False
      else if length d = 1 \<and> ((1 \<le> hd d \<and> hd d \<le> 16) \<or> hd d = 0x81) then False
      else if length d \<le> 75 then unat opcode = length d
      else if length d \<le> 255 then opcode = 0x4c
      else if length d \<le> 65535 then opcode = 0x4d
      else True)"
| "minimal_push (Plain_op b) = True"

definition script_minimal :: "script \<Rightarrow> bool" where
  "script_minimal sc =
     (case script_ops sc of None \<Rightarrow> True | Some ops \<Rightarrow> list_all minimal_push ops)"

definition tx_minimal :: "CTransaction \<Rightarrow> bool" where
  "tx_minimal t = list_all (\<lambda>i. script_minimal (scriptSig i)) (vin t)"

definition block_minimal :: "CBlock \<Rightarrow> bool" where
  "block_minimal b = list_all tx_minimal (vtx b)"

text \<open>
  Modelled from the spec: the plain node. Its chain is the list of its blocks' timestamps,
  the tip last, and starts with the eleven blocks of \<open>plain_old_times\<close>; a generated
  block repeats the timestamp of the tip. The spec: "Before a scheduled activation
  instant, violating transactions must be rejected only as policy, never banning the
  sender, yet may still be mined into blocks. After activation, the identical violation
  must make a block itself invalid, and propagating it must trigger peer banning"; the
  fixture in a block "is Accepted strictly before the POST\_ACTIVATION phase and
  RejectedWithBan strictly within it". So the node refuses a transaction sent on its own
  when it has a push that is not minimal, at any time and without a ban, and refuses a
  batch of blocks that holds such a transaction, with a ban, when the median time past of
  the chain the batch extends has reached the activation time.
\<close>

definition plain_mtp :: "int list \<Rightarrow> int" where
  "plain_mtp chain = (case median_time_past chain of None \<Rightarrow> 0 | Some m \<Rightarrow> m)"

definition plain_rejects :: "int list \<Rightarrow> CBlock list \<Rightarrow> bool" where
  "plain_rejects chain blocks =
     (NOV2019_START_TIME \<le> plain_mtp chain \<and> \<not> list_all block_minimal blocks)"

definition plain_step :: "int list \<Rightarrow> event \<Rightarrow> int list" where
  "plain_step chain e =
     (case e of
        Node_generate k \<Rightarrow> chain @ replicate (nat k) (last chain)
      | Send_blocks_and_test blocks success expect_ban reject_reason \<Rightarrow>
          (if plain_rejects chain blocks then chain else chain @ map nTime blocks)
      | _ \<Rightarrow> chain)"

definition plain_chain :: "event list \<Rightarrow> int list" where
  "plain_chain tr = foldl plain_step plain_old_times tr"

definition plain_framework :: framework where
  "plain_framework =
     \<lparr>calc_sha256 = (\<lambda>b. b\<lparr>sha256 := Some (plain_block_hash b)\<rparr>),
      create_coinbase = (\<lambda>height spk.
        \<lparr>vin = [\<lparr>prevout = \<lparr>outpoint_hash = None, outpoint_n = 4294967295\<rparr>, scriptSig = []\<rparr>],
         vout = [\<lparr>nValue = 5000000000, scriptPubKey = spk\<rparr>],
         tx_sha256 = Some (nat \<bar>height\<bar>)\<rparr>),
      create_block = (\<lambda>hashprev coinbase t.
        \<lparr>hashPrevBlock = hashprev, nTime = t, vtx = [coinbase], hashMerkleRoot = 0,
         sha256 = None\<rparr>),
      make_conform_to_ctor = (\<lambda>b. b),
      calc_merkle_root = (\<lambda>b. sum_list (map plain_tx_hash (vtx b))),
      solve = (\<lambda>b. b\<lparr>sha256 := Some (plain_block_hash b)\<rparr>),
      create_transaction = (\<lambda>prevtx n sig value spk.
        \<lparr>vin = [\<lparr>prevout = \<lparr>outpoint_hash = tx_sha256 prevtx, outpoint_n = n\<rparr>,
                 scriptSig = sig\<rparr>],
         vout = [\<lparr>nValue = value, scriptPubKey = spk\<rparr>],
         tx_sha256 = None\<rparr>),
      pad_tx = (\<lambda>t. t\<lparr>vout := vout t @ [\<lparr>nValue = 0, scriptPubKey = [0x6a]\<rparr>]\<rparr>),
      rehash = (\<lambda>t. t\<lparr>tx_sha256 := Some (plain_tx_hash t)\<rparr>),
      getblockcount = (\<lambda>tr. 189 + int (length (plain_chain tr))),
      getblockhash = (\<lambda>tr height. replicate (nat (height div 100)) CHR ''0''),
      getblock = (\<lambda>tr blockhash. blockhash),
      FromHex_CBlock = (\<lambda>hex.
        \<lparr>hashPrevBlock = None, nTime = 1573000000 + int (length hex), vtx = [],
         hashMerkleRoot = 0, sha256 = None\<rparr>),
      connection_state = (\<lambda>tr. ''connected''),
      blocks_outcome = (\<lambda>tr blocks.
        if plain_rejects (plain_chain tr) blocks then RejectedWithBan (Some BADSIGNATURE_ERROR)
        else Accepted),
      txs_outcome = (\<lambda>tr txs.
        if list_all tx_minimal txs then Accepted else RejectedNoBan (Some MINIMALPUSH_ERROR)),
      sendrawtransaction = (\<lambda>tr tx.
        if tx_minimal tx then None else Some (-26, MINIMALPUSH_ERROR)),
      getrawmempool = (\<lambda>tr. []),
      mediantime = (\<lambda>tr. plain_mtp (plain_chain tr))\<rparr>"

definition plain_coinbase :: "int \<Rightarrow> CTransaction" where
  "plain_coinbase height = create_coinbase plain_framework height (CScript [OP_TRUE])"

definition plain_pool :: factory_state where
  "plain_pool =
     \<lparr>spendable_outputs = [plain_coinbase 1, plain_coinbase 2, plain_coinbase 3],
      fundings = []\<rparr>"

text \<open>A block of the plain node, and the state after \<^verbatim>\<open>getbestblock\<close> registered it.\<close>

definition plain_tip :: CBlock where
  "plain_tip = FromHex_CBlock plain_framework ''00''"

definition plain_registered :: test_state where
  "plain_registered = snd (getbestblock plain_framework \<lparr>block_heights = Map.empty, trace = []\<rparr>)"

text \<open>The plain node, but one that accepts every block.\<close>

definition accepting_framework :: framework where
  "accepting_framework = plain_framework\<lparr>blocks_outcome := (\<lambda>tr blocks. Accepted)\<rparr>"

subsection \<open>What the scenario needs of the framework\<close>

text \<open>
  What the scenario needs of \<^verbatim>\<open>test_framework\<close> to raise no exception of its own:
  hashing a hashed block again gives the same hash, a solved block is hashed, hashing leaves
  the transactions alone, and a built block starts with a coinbase that has an output.
\<close>

definition well_behaved :: "framework \<Rightarrow> bool" where
  "well_behaved env =
     ((\<forall>b. sha256 (calc_sha256 env (calc_sha256 env b)) = sha256 (calc_sha256 env b))
      \<and> (\<forall>b. sha256 (calc_sha256 env (solve env b)) = sha256 (solve env b))
      \<and> (\<forall>b. vtx (calc_sha256 env b) = vtx b)
      \<and> (\<forall>parent h txs t. \<exists>coinbase rest out outs.
            vtx (built_block env parent h txs t) = coinbase # rest \<and> vout coinbase = out # outs))"

text \<open>The hash the next \<^verbatim>\<open>build_block\<close> looks up for a tip is a key of \<^verbatim>\<open>block_heights\<close>.\<close>

definition registered :: "framework \<Rightarrow> CBlock \<Rightarrow> test_state \<Rightarrow> bool" where
  "registered env tip s = (block_heights s (sha256 (calc_sha256 env tip)) \<noteq> None)"

text \<open>A block whose first transaction has an output, as line 144 and line 159 need.\<close>

definition spendable_block :: "CBlock \<Rightarrow> bool" where
  "spendable_block b = (case vtx b of [] \<Rightarrow> False | t # ts \<Rightarrow> vout t \<noteq> [])"

text \<open>
  From every state that satisfies \<open>P\<close> the statement goes on to the next one, with a value
  and in a state that satisfy \<open>Q\<close>.
\<close>

definition proceeds ::
  "(test_state \<Rightarrow> 'a flow) \<Rightarrow> (test_state \<Rightarrow> bool) \<Rightarrow> ('a \<Rightarrow> test_state \<Rightarrow> bool) \<Rightarrow> bool" where
  "proceeds m P Q = (\<forall>s. P s \<longrightarrow> (\<exists>a s'. m s = Continue a s' \<and> Q a s'))"

text \<open>A pool of \<open>n\<close> sources, each with an output.\<close>

definition pool_ok :: "nat \<Rightarrow> factory_state \<Rightarrow> bool" where
  "pool_ok n f = (length (spendable_outputs f) = n
                    \<and> list_all (\<lambda>t. vout t \<noteq> []) (spendable_outputs f))"

text \<open>From every state that satisfies \<open>P\<close> the statements end in a \<^verbatim>\<open>return\<close>.\<close>

definition returns :: "(test_state \<Rightarrow> 'a flow) \<Rightarrow> (test_state \<Rightarrow> bool) \<Rightarrow> bool" where
  "returns m P = (\<forall>s. P s \<longrightarrow> (\<exists>s'. m s = Returned s'))"

subsection \<open>The chain of the plain node along a run\<close>

text \<open>
  What holds of a state of the run on the plain instance: \<open>R\<close> of \<^verbatim>\<open>block_heights\<close>
  and \<open>C\<close> of the node's chain after the events so far.
\<close>

definition plain_state ::
  "((uint256 option \<rightharpoonup> int) \<Rightarrow> bool) \<Rightarrow> (int list \<Rightarrow> bool) \<Rightarrow> test_state \<Rightarrow> bool" where
  "plain_state R C s = (R (block_heights s) \<and> C (plain_chain (trace s)))"

text \<open>
  Up to the six blocks of lines 222 to 224 the chain has \<open>n\<close> blocks, at least eleven, all
  stamped in November 2019.
\<close>

definition plain_early :: "int \<Rightarrow> bool" where
  "plain_early t = (t \<le> 1573000100)"

definition chain_early :: "nat \<Rightarrow> int list \<Rightarrow> bool" where
  "chain_early n chain = (11 \<le> n \<and> length chain = n \<and> list_all plain_early chain)"

text \<open>From then on the chain ends with the given timestamps, after five or more early ones.\<close>

definition chain_crossed :: "int list \<Rightarrow> int list \<Rightarrow> bool" where
  "chain_crossed suffix chain =
     (\<exists>old. chain = old @ suffix \<and> 5 \<le> length old \<and> list_all plain_early old)"

text \<open>The hash the next \<^verbatim>\<open>build_block\<close> looks up for a tip is a key of the dictionary.\<close>

definition known :: "framework \<Rightarrow> CBlock \<Rightarrow> (uint256 option \<rightharpoonup> int) \<Rightarrow> bool" where
  "known env tip heights = (heights (sha256 (calc_sha256 env tip)) \<noteq> None)"

text \<open>
  The timestamps \<^verbatim>\<open>build_block\<close> gives to the blocks of a loop that starts on a tip
  stamped \<open>t\<close>: the argument \<^verbatim>\<open>nTime\<close> when there is one, the parent's timestamp plus one
  otherwise (line 102).
\<close>

fun loop_times :: "int \<Rightarrow> int option list \<Rightarrow> int list" where
  "loop_times t [] = []"
| "loop_times t (x # xs) =
     (case x of None \<Rightarrow> t + 1 | Some u \<Rightarrow> u)
       # loop_times (case x of None \<Rightarrow> t + 1 | Some u \<Rightarrow> u) xs"

subsection \<open>Reading a trace\<close>

text \<open>
  The events of a run that reaches the \<^verbatim>\<open>return\<close> of line 248, for the blocks and
  transactions it builds on the way.
\<close>

definition scenario_trace ::
  "CBlock list \<Rightarrow> CTransaction \<Rightarrow> CTransaction \<Rightarrow> CTransaction \<Rightarrow> CBlock \<Rightarrow> CBlock
     \<Rightarrow> CBlock list \<Rightarrow> CBlock \<Rightarrow> CBlock \<Rightarrow> event list" where
  "scenario_trace blocks tx1 tx2 tx3 funding_block fixture_block crossing_blocks
       activation_block rejected_block =
     [Node_generate 1, Bootstrap_p2p,
      Logging_info ''Create some blocks with OP_1 coinbase for spending.'',
      Send_blocks_and_test blocks (Some True) None None,
      Logging_info ''Mature the blocks and get out of IBD.'',
      Node_generate 100,
      Logging_info ''Setting up spends to test and mining the fundings.'',
      Send_blocks_and_test [funding_block] None None None,
      Logging_info ''Start preupgrade tests'',
      Logging_info ''Sending rejected transactions via RPC'',
      Assert_raises_rpc_error (-26) MINIMALPUSH_ERROR tx1,
      Assert_raises_rpc_error (-26) MINIMALPUSH_ERROR tx2,
      Assert_raises_rpc_error (-26) MINIMALPUSH_ERROR tx3,
      Logging_info ''Sending rejected transactions via net (no banning)'',
      Send_txs_and_test [tx1] (Some False) (Some False) (Some MINIMALPUSH_ERROR),
      Send_txs_and_test [tx2] (Some False) (Some False) (Some MINIMALPUSH_ERROR),
      Send_txs_and_test [tx3] (Some False) (Some False) (Some MINIMALPUSH_ERROR),
      Assert_equal_getrawmempool [],
      Logging_info ''Successfully mine nonstandard transaction'',
      Send_blocks_and_test [fixture_block] None None None,
      Logging_info ''Approach to just before upgrade activation'',
      Node_setmocktime NOV2019_START_TIME,
      Send_blocks_and_test crossing_blocks None None None,
      Assert_equal_mediantime (NOV2019_START_TIME - 1),
      Logging_info ''Mine the activation block itself, including a minimaldata violation at the last possible moment'',
      Send_blocks_and_test [activation_block] None None None,
      Logging_info ''We have activated!'',
      Assert_equal_mediantime NOV2019_START_TIME,
      Logging_info ''Trying to mine a minimaldata violation, but we are just barely too late'',
      Send_blocks_and_test [rejected_block] (Some False) (Some True) (Some BADSIGNATURE_ERROR)]"

text \<open>
  Every assertion of the events \<open>es\<close> held when it was made, the events \<open>pre\<close> having
  come before.
\<close>

fun checks_from :: "framework \<Rightarrow> event list \<Rightarrow> event list \<Rightarrow> bool" where
  "checks_from env pre [] = True"
| "checks_from env pre (e # es) = (passes env pre e \<and> checks_from env (pre @ [e]) es)"

text \<open>What the calls of an event expect of the node, in the order of the trace.\<close>

fun block_expectation :: "event \<Rightarrow> submission_result list" where
  "block_expectation (Send_blocks_and_test blocks success expect_ban reject_reason) =
     [expected_result success expect_ban reject_reason]"
| "block_expectation e = []"

definition block_expectations :: "event list \<Rightarrow> submission_result list" where
  "block_expectations tr = concat (map block_expectation tr)"

text \<open>
  A transaction sent on its own, over the peer connection or by
  \<^verbatim>\<open>sendrawtransaction\<close>. The second raises an error in the caller and cannot show a
  ban.
\<close>

fun standalone_expectation :: "event \<Rightarrow> submission_result list" where
  "standalone_expectation (Send_txs_and_test txs success expect_ban reject_reason) =
     [expected_result success expect_ban reject_reason]"
| "standalone_expectation (Assert_raises_rpc_error code message tx) =
     [RejectedNoBan (Some message)]"
| "standalone_expectation e = []"

definition standalone_expectations :: "event list \<Rightarrow> submission_result list" where
  "standalone_expectations tr = concat (map standalone_expectation tr)"

fun rpc_code :: "event \<Rightarrow> int list" where
  "rpc_code (Assert_raises_rpc_error code message tx) = [code]"
| "rpc_code e = []"

definition rpc_codes :: "event list \<Rightarrow> int list" where
  "rpc_codes tr = concat (map rpc_code tr)"

fun sent_blocks :: "event \<Rightarrow> CBlock list" where
  "sent_blocks (Send_blocks_and_test blocks success expect_ban reject_reason) = blocks"
| "sent_blocks e = []"


text \<open>
  The events from the assertion that the median time past is one short of the activation
  time up to the assertion that it is the activation time: the block between the two is
  the one that brings the median to the activation time.
\<close>

definition boundary_events :: "event list \<Rightarrow> event list" where
  "boundary_events tr =
     takeWhile (\<lambda>e. e \<noteq> Assert_equal_mediantime NOV2019_START_TIME)
       (dropWhile (\<lambda>e. e \<noteq> Assert_equal_mediantime (NOV2019_START_TIME - 1)) tr)"

text \<open>The events from the assertion that the median time past is the activation time.\<close>

definition after_activation :: "event list \<Rightarrow> event list" where
  "after_activation tr =
     dropWhile (\<lambda>e. e \<noteq> Assert_equal_mediantime NOV2019_START_TIME) tr"

text \<open>The run on the plain instance.\<close>

definition plain_final :: test_state where
  "plain_final = final_state (run_test plain_framework)"

subsection \<open>Events of a run\<close>

text \<open>Whatever the statement does, every event of the trace satisfies \<open>A\<close> if it did before.\<close>

definition keeps_events :: "(event \<Rightarrow> bool) \<Rightarrow> (test_state \<Rightarrow> 'a flow) \<Rightarrow> bool" where
  "keeps_events A m = (\<forall>s. list_all A (trace s) \<longrightarrow> list_all A (trace (final_state (m s))))"

text \<open>
  Not one of the two messages logged after the \<^verbatim>\<open>return\<close>, at lines 249 and 256.
\<close>

definition before_return :: "event \<Rightarrow> bool" where
  "before_return e =
     (e \<noteq> Logging_info ''If we try to submit it by mempool or RPC we still aren't banned''
      \<and> e \<noteq> Logging_info ''Mine a normal block'')"

section \<open>Properties\<close>

subsection \<open>Facts about the plain instance\<close>

lemmas plain_defs =
  plain_pool_def create_fund_and_spend_tx_def spend_tx_def plain_coinbase_def
  plain_framework_def CTransaction_new_def CScript_def Let_def fund_tx_def plain_tx_hash_def
  plain_block_hash_def

lemma plain_keeps_inputs: "keeps_inputs plain_framework"
  by (simp add: keeps_inputs_def plain_framework_def)

lemma plain_keeps_outputs: "keeps_outputs plain_framework"
  by (simp add: keeps_outputs_def plain_framework_def)

subsection \<open>Heights\<close>

text \<open>
  C5. A block built from a parent whose hash is a key of \<^verbatim>\<open>block_heights\<close> is
  registered at the parent's registered height plus one; building from a parent whose hash
  is not a key fails, with the \<^verbatim>\<open>KeyError\<close> of the lookup at line 101.
\<close>

theorem build_block_height:
  "(block_heights s (sha256 (calc_sha256 env parent)) = Some h \<longrightarrow>
      (\<exists>parent' block s'. build_block env parent txs t s = Inr (parent', block, s') \<and>
         block_heights s' (sha256 block) = Some (h + 1)))
   \<and> (block_heights s (sha256 (calc_sha256 env parent)) = None \<longrightarrow>
      build_block env parent txs t s = Inl KeyError)"
  by (simp add: build_block_def Let_def)

theorem build_block_height_witness:
  "block_heights plain_registered (sha256 (calc_sha256 plain_framework plain_tip)) = Some 200
   \<and> (\<exists>parent' block s'.
         build_block plain_framework plain_tip [] None plain_registered = Inr (parent', block, s')
         \<and> block_heights s' (sha256 block) = Some 201)
   \<and> block_heights \<lparr>block_heights = Map.empty, trace = []\<rparr>
        (sha256 (calc_sha256 plain_framework plain_tip)) = None
   \<and> build_block plain_framework plain_tip [] None \<lparr>block_heights = Map.empty, trace = []\<rparr>
        = Inl KeyError"
proof -
  have reg: "block_heights plain_registered (sha256 (calc_sha256 plain_framework plain_tip))
               = Some 200"
    by (simp add: plain_registered_def plain_tip_def getbestblock_def plain_framework_def Let_def
          plain_chain_def plain_old_times_def)
  have unreg: "block_heights \<lparr>block_heights = Map.empty, trace = []\<rparr>
                 (sha256 (calc_sha256 plain_framework plain_tip)) = None"
    by simp
  from reg unreg
    build_block_height [of plain_registered plain_framework plain_tip 200 "[]" None]
    build_block_height [of "\<lparr>block_heights = Map.empty, trace = []\<rparr>" plain_framework
      plain_tip 0 "[]" None]
  show ?thesis by simp
qed

subsection \<open>The fixture factory\<close>

lemma create_fund_and_spend_tx_Inr:
  assumes "create_fund_and_spend_tx env f = Inr (txspend, f')"
  shows "\<exists>spendfrom out0 outs.
           spendable_outputs f = spendable_outputs f' @ [spendfrom] \<and>
           vout spendfrom = out0 # outs \<and>
           fundings f' = fundings f @ [fund_tx env spendfrom (nValue out0)] \<and>
           txspend = rehash env (pad_tx env
             \<lparr>vin = [\<lparr>prevout = \<lparr>outpoint_hash = tx_sha256 (fund_tx env spendfrom (nValue out0)),
                                  outpoint_n = 0\<rparr>,
                      scriptSig = [0x01, 0x01, 0x51]\<rparr>],
              vout = [\<lparr>nValue = nValue out0 - 1000, scriptPubKey = [OP_TRUE]\<rparr>],
              tx_sha256 = None\<rparr>)"
proof -
  from assms have ne: "spendable_outputs f \<noteq> []"
    by (auto simp: create_fund_and_spend_tx_def split: if_splits)
  then have pool: "spendable_outputs f = butlast (spendable_outputs f) @ [last (spendable_outputs f)]"
    by simp
  from assms ne obtain out0 outs where out: "vout (last (spendable_outputs f)) = out0 # outs"
    by (cases "vout (last (spendable_outputs f))")
       (auto simp: create_fund_and_spend_tx_def Let_def)
  from assms ne out have res:
    "f' = f\<lparr>spendable_outputs := butlast (spendable_outputs f),
              fundings := fundings f
                @ [fund_tx env (last (spendable_outputs f)) (nValue out0)]\<rparr>"
    "txspend = rehash env (pad_tx env
       \<lparr>vin = [\<lparr>prevout = \<lparr>outpoint_hash =
                  tx_sha256 (fund_tx env (last (spendable_outputs f)) (nValue out0)),
                  outpoint_n = 0\<rparr>,
                scriptSig = [0x01, 0x01, 0x51]\<rparr>],
        vout = [\<lparr>nValue = nValue out0 - 1000, scriptPubKey = [OP_TRUE]\<rparr>],
        tx_sha256 = None\<rparr>)"
    by (auto simp: create_fund_and_spend_tx_def spend_tx_def CTransaction_new_def CScript_def Let_def)
  show ?thesis
    apply (rule exI [of _ "last (spendable_outputs f)"])
    apply (rule exI [of _ out0])
    apply (rule exI [of _ outs])
    using pool out res by simp
qed

lemma factory_error_is_IndexError:
  "create_fund_and_spend_tx env f = Inl e \<Longrightarrow> e = IndexError"
  by (auto simp: create_fund_and_spend_tx_def spend_tx_def CTransaction_new_def Let_def
           split: if_splits list.splits)

lemma create_many_used:
  "create_many env k f = Inr (txs, f') \<Longrightarrow>
     \<exists>used. length used = k \<and> length txs = k \<and>
       spendable_outputs f = spendable_outputs f' @ rev used \<and>
       fundings f' = fundings f @ map (\<lambda>src. fund_tx env src (nValue (hd (vout src)))) used"
proof (induction k arbitrary: f txs f')
  case 0
  then show ?case by simp
next
  case (Suc k)
  from Suc.prems obtain tx f1 txs1 where
    one: "create_fund_and_spend_tx env f = Inr (tx, f1)" and
    many: "create_many env k f1 = Inr (txs1, f')" and txs: "txs = tx # txs1"
    by (auto split: sum.splits prod.splits)
  from create_fund_and_spend_tx_Inr [OF one] obtain src out0 outs where
    src: "spendable_outputs f = spendable_outputs f1 @ [src]" "vout src = out0 # outs"
      "fundings f1 = fundings f @ [fund_tx env src (nValue out0)]"
    by blast
  from Suc.IH [OF many] obtain used where
    used: "length used = k" "length txs1 = k"
      "spendable_outputs f1 = spendable_outputs f' @ rev used"
      "fundings f' = fundings f1 @ map (\<lambda>src. fund_tx env src (nValue (hd (vout src)))) used"
    by blast
  show ?case
    apply (rule exI [of _ "src # used"])
    using src used txs by simp
qed

lemma create_many_exhausted:
  "length (spendable_outputs f) < k \<Longrightarrow> create_many env k f = Inl IndexError"
proof (induction k arbitrary: f)
  case 0
  then show ?case by simp
next
  case (Suc k)
  show ?case
  proof (cases "create_fund_and_spend_tx env f")
    case (Inl e)
    then show ?thesis using factory_error_is_IndexError [OF Inl] by simp
  next
    case (Inr r)
    obtain tx f1 where r: "r = (tx, f1)" by (cases r)
    from create_fund_and_spend_tx_Inr [OF Inr [unfolded r]] obtain src where
      "spendable_outputs f = spendable_outputs f1 @ [src]" by blast
    with Suc.prems have "length (spendable_outputs f1) < k" by simp
    from Suc.IH [OF this] show ?thesis using Inr r by simp
  qed
qed

lemma plain_one_call: "\<not> isl (create_fund_and_spend_tx plain_framework plain_pool)"
  by (simp add: plain_defs)

lemma plain_three_calls: "\<not> isl (create_many plain_framework 3 plain_pool)"
  by (simp add: numeral_3_eq_3 plain_defs)

text \<open>
  C7. Each call of the factory takes one entry off the end of the pool. After \<open>k\<close>
  successful calls the sources used, in the order of the calls, are the last \<open>k\<close> entries
  of the pool backwards, each funded once, and the others are still in the pool; sources
  from a pool of distinct entries are distinct. When \<open>k\<close> is the size of the pool the pool
  is then empty and one more call fails, with the \<^verbatim>\<open>IndexError\<close> of \<^verbatim>\<open>pop\<close> on an
  empty list (the spec's name for it is ExhaustedFixtureSourceError).
\<close>

theorem fixture_pool_never_reused:
  assumes "create_many env k f = Inr (txs, f')"
  shows "\<exists>used. length used = k \<and> length txs = k \<and>
           spendable_outputs f = spendable_outputs f' @ rev used \<and>
           fundings f' = fundings f @ map (\<lambda>src. fund_tx env src (nValue (hd (vout src)))) used \<and>
           (distinct (spendable_outputs f) \<longrightarrow> distinct used) \<and>
           (k = length (spendable_outputs f) \<longrightarrow>
              spendable_outputs f' = [] \<and>
              create_fund_and_spend_tx env f' = Inl IndexError \<and>
              create_many env (Suc k) f = Inl IndexError)"
proof -
  from create_many_used [OF assms] obtain used where
    used: "length used = k" "length txs = k"
      "spendable_outputs f = spendable_outputs f' @ rev used"
      "fundings f' = fundings f @ map (\<lambda>src. fund_tx env src (nValue (hd (vout src)))) used"
    by blast
  have d: "distinct (spendable_outputs f) \<longrightarrow> distinct used"
    using used(3) by auto
  have e: "k = length (spendable_outputs f) \<longrightarrow>
              spendable_outputs f' = [] \<and>
              create_fund_and_spend_tx env f' = Inl IndexError \<and>
              create_many env (Suc k) f = Inl IndexError"
  proof
    assume k: "k = length (spendable_outputs f)"
    have "length (spendable_outputs f) = length (spendable_outputs f') + k"
      using used(1) arg_cong [OF used(3), of length] by simp
    with k have empty: "spendable_outputs f' = []" by simp
    then have "create_fund_and_spend_tx env f' = Inl IndexError"
      by (simp add: create_fund_and_spend_tx_def)
    moreover have "create_many env (Suc k) f = Inl IndexError"
      by (rule create_many_exhausted) (simp add: k)
    ultimately show "spendable_outputs f' = [] \<and>
              create_fund_and_spend_tx env f' = Inl IndexError \<and>
              create_many env (Suc k) f = Inl IndexError"
      using empty by simp
  qed
  show ?thesis
    apply (rule exI [of _ used])
    using used d e by simp
qed

theorem fixture_pool_never_reused_witness:
  "\<not> isl (create_many plain_framework 3 plain_pool)
   \<and> distinct (spendable_outputs plain_pool)
   \<and> length (spendable_outputs plain_pool) = 3
   \<and> spendable_outputs (snd (projr (create_many plain_framework 3 plain_pool))) = []
   \<and> create_fund_and_spend_tx plain_framework
        (snd (projr (create_many plain_framework 3 plain_pool))) = Inl IndexError
   \<and> create_many plain_framework (Suc 3) plain_pool = Inl IndexError"
proof -
  have r: "create_many plain_framework 3 plain_pool
             = Inr (fst (projr (create_many plain_framework 3 plain_pool)),
                    snd (projr (create_many plain_framework 3 plain_pool)))"
    using plain_three_calls by (cases "create_many plain_framework 3 plain_pool") simp_all
  have d: "distinct (spendable_outputs plain_pool)"
    by (simp add: plain_defs)
  have l: "length (spendable_outputs plain_pool) = 3"
    by (simp add: plain_pool_def)
  from fixture_pool_never_reused [OF r] l d plain_three_calls show ?thesis
    by auto
qed

text \<open>
  C10. When \<^verbatim>\<open>pad_tx\<close> only adds outputs at the end and neither it nor
  \<^verbatim>\<open>rehash\<close> touches the inputs, the transaction the factory returns has as first
  output the full value of output 0 of the source it took off the pool, less 1000, paid to
  the script \<^verbatim>\<open>OP_TRUE\<close>, and as only input output 0 of the funding transaction the
  same call appended to \<^verbatim>\<open>fundings\<close>.
\<close>

theorem spend_pays_value_less_fee:
  assumes "create_fund_and_spend_tx env f = Inr (txspend, f')"
    and "keeps_inputs env" and "keeps_outputs env"
  shows "\<exists>spendfrom out0 outs txfund extra.
           spendable_outputs f = spendable_outputs f' @ [spendfrom] \<and>
           vout spendfrom = out0 # outs \<and>
           txfund = fund_tx env spendfrom (nValue out0) \<and>
           fundings f' = fundings f @ [txfund] \<and>
           vout txspend
             = \<lparr>nValue = nValue out0 - 1000, scriptPubKey = CScript [OP_TRUE]\<rparr> # extra \<and>
           map prevout (vin txspend) = [\<lparr>outpoint_hash = tx_sha256 txfund, outpoint_n = 0\<rparr>]"
proof -
  from create_fund_and_spend_tx_Inr [OF assms(1)] obtain spendfrom out0 outs where
    a: "spendable_outputs f = spendable_outputs f' @ [spendfrom]"
       "vout spendfrom = out0 # outs"
       "fundings f' = fundings f @ [fund_tx env spendfrom (nValue out0)]" and
    t: "txspend = rehash env (pad_tx env
             \<lparr>vin = [\<lparr>prevout = \<lparr>outpoint_hash = tx_sha256 (fund_tx env spendfrom (nValue out0)),
                                  outpoint_n = 0\<rparr>,
                      scriptSig = [0x01, 0x01, 0x51]\<rparr>],
              vout = [\<lparr>nValue = nValue out0 - 1000, scriptPubKey = [OP_TRUE]\<rparr>],
              tx_sha256 = None\<rparr>)"
    by blast
  from assms(3) obtain extra where
    o: "vout txspend = [\<lparr>nValue = nValue out0 - 1000, scriptPubKey = [OP_TRUE]\<rparr>] @ extra"
    unfolding keeps_outputs_def t by (metis CTransaction.select_convs(2))
  from assms(2) have
    i: "vin txspend = [\<lparr>prevout = \<lparr>outpoint_hash = tx_sha256 (fund_tx env spendfrom (nValue out0)),
                                  outpoint_n = 0\<rparr>,
                      scriptSig = [0x01, 0x01, 0x51]\<rparr>]"
    unfolding keeps_inputs_def t by simp
  show ?thesis
    apply (rule exI [of _ spendfrom])
    apply (rule exI [of _ out0])
    apply (rule exI [of _ outs])
    apply (rule exI [of _ "fund_tx env spendfrom (nValue out0)"])
    apply (rule exI [of _ extra])
    using a o i by (simp add: CScript_def)
qed

theorem spend_pays_value_less_fee_witness:
  "\<not> isl (create_fund_and_spend_tx plain_framework plain_pool)
   \<and> keeps_inputs plain_framework \<and> keeps_outputs plain_framework
   \<and> vout (plain_coinbase 3) = [\<lparr>nValue = 5000000000, scriptPubKey = [OP_TRUE]\<rparr>]
   \<and> take 1 (vout (fst (projr (create_fund_and_spend_tx plain_framework plain_pool))))
        = [\<lparr>nValue = 4999999000, scriptPubKey = [OP_TRUE]\<rparr>]
   \<and> map outpoint_n (map prevout
        (vin (fst (projr (create_fund_and_spend_tx plain_framework plain_pool))))) = [0]"
proof -
  let ?r = "create_fund_and_spend_tx plain_framework plain_pool"
  have r: "?r = Inr (fst (projr ?r), snd (projr ?r))"
    using plain_one_call by (cases ?r) simp_all
  have c: "vout (plain_coinbase 3) = [\<lparr>nValue = 5000000000, scriptPubKey = [OP_TRUE]\<rparr>]"
    by (simp add: plain_defs)
  have p: "y = plain_coinbase 3" if "spendable_outputs plain_pool = ys @ [y]" for ys y
    using arg_cong [OF that, of last] by (simp add: plain_pool_def)
  have v: "nValue out0 = 5000000000" if "vout (plain_coinbase 3) = out0 # outs" for out0 outs
    using that c by auto
  from spend_pays_value_less_fee [OF r plain_keeps_inputs plain_keeps_outputs]
    plain_one_call plain_keeps_inputs plain_keeps_outputs c
  show ?thesis
    by (auto dest!: p v simp: CScript_def)
qed

text \<open>
  C6, as the code has it. The unlocking script of the returned transaction is the three
  bytes \<open>0x01 0x01 0x51\<close>, when padding and hashing leave the inputs alone. Read as a
  script they are two operations: a push of two bytes, the opcode for a push of length 1
  and the value byte 1, and then the one-byte opcode \<^verbatim>\<open>OP_1\<close>, which pushes the same
  value in one byte.
\<close>

theorem unlocking_script_is_push1_then_op1:
  assumes "create_fund_and_spend_tx env f = Inr (txspend, f')" and "keeps_inputs env"
  shows "map scriptSig (vin txspend) = [[0x01, 0x01, OP_TRUE]]
         \<and> script_ops [0x01, 0x01, OP_TRUE] = Some [Push_op 0x01 [0x01], Plain_op OP_TRUE]
         \<and> pushed_value (Push_op 0x01 [0x01]) = pushed_value (Plain_op OP_TRUE)
         \<and> encoded_length (Push_op 0x01 [0x01]) = 2
         \<and> encoded_length (Plain_op OP_TRUE) = 1"
proof -
  have "map scriptSig (vin txspend) = [[0x01, 0x01, OP_TRUE]]"
    using create_fund_and_spend_tx_Inr [OF assms(1)] assms(2)
    unfolding keeps_inputs_def by (auto simp: OP_TRUE_def)
  then show ?thesis
    by (simp add: OP_TRUE_def take_push_def)
qed

theorem unlocking_script_is_push1_then_op1_witness:
  "\<not> isl (create_fund_and_spend_tx plain_framework plain_pool)
   \<and> keeps_inputs plain_framework
   \<and> map scriptSig (vin (fst (projr (create_fund_and_spend_tx plain_framework plain_pool))))
       = [[0x01, 0x01, 0x51]]"
proof -
  let ?r = "create_fund_and_spend_tx plain_framework plain_pool"
  have r: "?r = Inr (fst (projr ?r), snd (projr ?r))"
    using plain_one_call by (cases ?r) simp_all
  from unlocking_script_is_push1_then_op1 [OF r plain_keeps_inputs] plain_one_call
    plain_keeps_inputs
  show ?thesis by (simp add: OP_TRUE_def)
qed

text \<open>
  C6, as the claim words it, fails: the three bytes are not one push of an opcode, a length
  byte and the value byte 1. The third byte is \<open>0x51\<close>, and the script has the one-byte
  opcode for 1 in it, as its second operation.
\<close>

theorem unlocking_script_counterexample:
  "unlocking_scripts (create_fund_and_spend_tx plain_framework plain_pool)
     = [[0x01, 0x01, 0x51]]
   \<and> [0x01, 0x01, 0x51] \<noteq> explicit_three_byte_push 0x01
   \<and> script_ops [0x01, 0x01, 0x51] = Some [Push_op 0x01 [0x01], Plain_op 0x51]
   \<and> script_ops (explicit_three_byte_push 0x01) \<noteq> Some [Push_op 0x01 [0x01], Plain_op 0x51]"
  by (simp add: unlocking_scripts_def explicit_three_byte_push_def take_push_def plain_defs)

subsection \<open>Median time past across the run of six blocks\<close>

lemma sort_append_le:
  assumes "sorted ys" and "\<forall>x\<in>set xs. \<forall>y\<in>set ys. x \<le> y"
  shows "sort (xs @ ys) = sort xs @ (ys :: int list)"
proof (rule properties_for_sort)
  show "mset (sort xs @ ys) = mset (xs @ ys)" by simp
  show "sorted (sort xs @ ys)" using assms by (simp add: sorted_append)
qed

lemma crossing_sorted: "sorted crossing_times"
  by (simp add: crossing_times_def)

lemma crossing_median:
  assumes "5 \<le> length old"
    and "\<forall>t\<in>set (drop (length old - 5) old). t \<le> NOV2019_START_TIME - 1"
  shows "median_time_past (old @ crossing_times) = Some (NOV2019_START_TIME - 1)"
proof -
  let ?o = "drop (length old - 5) old"
  have len: "length ?o = 5" using assms(1) by simp
  have w: "drop (length (old @ crossing_times) - 11) (old @ crossing_times) = ?o @ crossing_times"
    using assms(1) by (simp add: crossing_times_def)
  have le: "\<forall>x\<in>set ?o. \<forall>y\<in>set crossing_times. x \<le> y"
    using assms(2) by (auto simp: crossing_times_def)
  have s: "sort (?o @ crossing_times) = sort ?o @ crossing_times"
    by (rule sort_append_le [OF crossing_sorted le])
  have "(sort ?o @ crossing_times) ! 5 = crossing_times ! 0"
    using len by (simp add: nth_append)
  then have "sort (?o @ crossing_times) ! 5 = NOV2019_START_TIME - 1"
    using s by (simp add: crossing_times_def)
  then show ?thesis
    unfolding median_time_past_def w Let_def using len by (simp add: crossing_times_def)
qed

lemma activation_median:
  assumes "5 \<le> length old"
    and "\<forall>t\<in>set (drop (length old - 5) old). t \<le> NOV2019_START_TIME - 1"
    and t: "NOV2019_START_TIME + 4 \<le> t"
  shows "median_time_past (old @ crossing_times @ [t]) = Some NOV2019_START_TIME"
proof -
  let ?o = "drop (length old - 4) old"
  let ?c = "crossing_times @ [t]"
  have len: "length ?o = 4" using assms(1) by simp
  have sub: "set ?o \<subseteq> set (drop (length old - 5) old)"
    by (rule set_drop_subset_set_drop) simp
  have w: "drop (length (old @ ?c) - 11) (old @ ?c) = ?o @ ?c"
    using assms(1) by (simp add: crossing_times_def)
  have sc: "sorted ?c"
    using t by (simp add: crossing_times_def sorted_append)
  have ol: "\<forall>x\<in>set ?o. x \<le> NOV2019_START_TIME - 1"
    using assms(2) sub by blast
  have le: "\<forall>x\<in>set ?o. \<forall>y\<in>set ?c. x \<le> y"
  proof (intro ballI)
    fix x y assume "x \<in> set ?o" and y: "y \<in> set ?c"
    with ol have "x \<le> NOV2019_START_TIME - 1" by blast
    moreover from y t have "NOV2019_START_TIME - 1 \<le> y"
      by (auto simp: crossing_times_def)
    ultimately show "x \<le> y" by simp
  qed
  have s: "sort (?o @ ?c) = sort ?o @ ?c"
    by (rule sort_append_le [OF sc le])
  have "(sort ?o @ ?c) ! 5 = ?c ! 1"
    using len by (simp add: nth_append)
  then have "sort (?o @ ?c) ! 5 = NOV2019_START_TIME"
    using s by (simp add: crossing_times_def)
  then show ?thesis
    unfolding median_time_past_def w Let_def using len by (simp add: crossing_times_def)
qed

lemma median_counts:
  assumes "length w = 11" and "sort w ! 5 \<le> (v :: int)"
  shows "6 \<le> length (filter (\<lambda>x. x \<le> v) w)"
proof -
  let ?s = "sort w"
  have l: "length ?s = 11" using assms(1) by simp
  have "\<forall>x\<in>set (take 6 ?s). x \<le> v"
  proof
    fix x assume "x \<in> set (take 6 ?s)"
    then obtain i where i: "i < 6" and x: "x = ?s ! i"
      using l by (auto simp: in_set_conv_nth)
    have "?s ! i \<le> ?s ! 5"
      by (rule sorted_nth_mono) (use i l in simp_all)
    with x assms(2) show "x \<le> v" by simp
  qed
  then have f: "filter (\<lambda>x. x \<le> v) (take 6 ?s) = take 6 ?s"
    by (simp add: filter_id_conv)
  have "filter (\<lambda>x. x \<le> v) ?s
          = filter (\<lambda>x. x \<le> v) (take 6 ?s) @ filter (\<lambda>x. x \<le> v) (drop 6 ?s)"
    by (metis append_take_drop_id filter_append)
  then have "6 \<le> length (filter (\<lambda>x. x \<le> v) ?s)"
    using f l by simp
  moreover have "length (filter (\<lambda>x. x \<le> v) ?s) = length (filter (\<lambda>x. x \<le> v) w)"
  proof -
    have "mset (filter (\<lambda>x. x \<le> v) ?s) = mset (filter (\<lambda>x. x \<le> v) w)"
      by simp
    then show ?thesis by (rule mset_eq_length)
  qed
  ultimately show ?thesis by simp
qed

lemma crossing_median_only_if:
  assumes "5 \<le> length old"
    and "median_time_past (old @ crossing_times) = Some (NOV2019_START_TIME - 1)"
  shows "\<forall>t\<in>set (drop (length old - 5) old). t \<le> NOV2019_START_TIME - 1"
proof -
  let ?o = "drop (length old - 5) old"
  let ?P = "\<lambda>x. x \<le> NOV2019_START_TIME - 1"
  have len: "length ?o = 5" using assms(1) by simp
  have w: "drop (length (old @ crossing_times) - 11) (old @ crossing_times) = ?o @ crossing_times"
    using assms(1) by (simp add: crossing_times_def)
  have l: "length (?o @ crossing_times) = 11"
    using len by (simp add: crossing_times_def)
  from assms(2) have "sort (?o @ crossing_times) ! 5 = NOV2019_START_TIME - 1"
    unfolding median_time_past_def w Let_def using len
    by (simp add: crossing_times_def split: if_splits)
  then have "6 \<le> length (filter ?P (?o @ crossing_times))"
    using median_counts [OF l, of "NOV2019_START_TIME - 1"] by simp
  moreover have "length (filter ?P crossing_times) = 1"
    by (simp add: crossing_times_def)
  ultimately have "5 \<le> length (filter ?P ?o)" by simp
  with len have full: "length (filter ?P ?o) = length ?o"
    using length_filter_le [of ?P ?o] by simp
  show ?thesis
  proof
    fix t assume "t \<in> set ?o"
    show "t \<le> NOV2019_START_TIME - 1"
    proof (rule ccontr)
      assume "\<not> t \<le> NOV2019_START_TIME - 1"
      with \<open>t \<in> set ?o\<close> have "length (filter ?P ?o) < length ?o"
        by (rule length_filter_less)
      with full show False by simp
    qed
  qed
qed

text \<open>
  C4, as the code has it. Spec-modelled median. With at least five blocks before the run
  of six, the median time past after the run is the activation time less one, which is
  what line 226 asserts, exactly when each of the five blocks just before the run is
  stamped no later than the activation time less one.
\<close>

theorem mtp_after_crossing:
  assumes "5 \<le> length old"
  shows "median_time_past (old @ crossing_times) = Some (NOV2019_START_TIME - 1)
           \<longleftrightarrow> (\<forall>t\<in>set (drop (length old - 5) old). t \<le> NOV2019_START_TIME - 1)"
proof
  assume "median_time_past (old @ crossing_times) = Some (NOV2019_START_TIME - 1)"
  from crossing_median_only_if [OF assms this]
  show "\<forall>t\<in>set (drop (length old - 5) old). t \<le> NOV2019_START_TIME - 1" .
next
  assume "\<forall>t\<in>set (drop (length old - 5) old). t \<le> NOV2019_START_TIME - 1"
  from crossing_median [OF assms this]
  show "median_time_past (old @ crossing_times) = Some (NOV2019_START_TIME - 1)" .
qed

theorem mtp_after_crossing_witness:
  "5 \<le> length plain_old_times
   \<and> list_all (\<lambda>t. t \<le> NOV2019_START_TIME - 1)
        (drop (length plain_old_times - 5) plain_old_times)
   \<and> median_time_past (plain_old_times @ crossing_times) = Some 1999999999
   \<and> 5 \<le> length (plain_old_times @ [2000000100])
   \<and> \<not> list_all (\<lambda>t. t \<le> NOV2019_START_TIME - 1)
        (drop (length (plain_old_times @ [2000000100]) - 5) (plain_old_times @ [2000000100]))
   \<and> median_time_past ((plain_old_times @ [2000000100]) @ crossing_times) \<noteq> Some 1999999999"
proof -
  have l: "5 \<le> length plain_old_times"
    by (simp add: plain_old_times_def)
  have a: "list_all (\<lambda>t. t \<le> NOV2019_START_TIME - 1)
             (drop (length plain_old_times - 5) plain_old_times)"
    by (simp add: plain_old_times_def NOV2019_START_TIME_def)
  have l2: "5 \<le> length (plain_old_times @ [2000000100])"
    by (simp add: plain_old_times_def)
  have a2: "\<not> list_all (\<lambda>t. t \<le> NOV2019_START_TIME - 1)
        (drop (length (plain_old_times @ [2000000100]) - 5) (plain_old_times @ [2000000100]))"
    by (simp add: plain_old_times_def NOV2019_START_TIME_def)
  from mtp_after_crossing [OF l] mtp_after_crossing [OF l2] l a l2 a2 show ?thesis
    by (simp add: NOV2019_START_TIME_def list_all_iff)
qed

text \<open>
  C4, as the claim words it, fails: across the run the median does not rise by one unit per
  block. On eleven earlier blocks of November 2019 it is still an earlier block's
  timestamp after the fifth block of the run, and the sixth block takes it from there to
  the activation time less one.
\<close>

theorem mtp_step_counterexample:
  "median_time_past (plain_old_times @ take 5 crossing_times) = Some 1573000011
   \<and> median_time_past (plain_old_times @ take 6 crossing_times) = Some 1999999999
   \<and> median_time_past (plain_old_times @ take 6 crossing_times)
       \<noteq> map_option (\<lambda>m. m + 1) (median_time_past (plain_old_times @ take 5 crossing_times))"
  by (simp add: median_time_past_def plain_old_times_def crossing_times_def NOV2019_START_TIME_def)

subsection \<open>The statements of run\_test, one phase at a time\<close>

lemma build_block_Inr:
  "build_block env parent txs t s = Inr (parent', block, s') \<longleftrightarrow>
     (\<exists>h. block_heights s (sha256 (calc_sha256 env parent)) = Some h
        \<and> parent' = calc_sha256 env parent
        \<and> block = built_block env parent (h + 1) txs t
        \<and> s' = s\<lparr>block_heights := (block_heights s)(sha256 block \<mapsto> h + 1)\<rparr>)"
  by (auto simp: build_block_def built_block_def Let_def split: option.splits)

lemma build_block_trace:
  "build_block env parent txs t s = Inr (parent', block, s') \<Longrightarrow> trace s' = trace s"
  by (auto simp: build_block_Inr)

lemma getbestblock_trace: "trace (snd (getbestblock env s)) = trace s"
  by (simp add: getbestblock_def Let_def)

lemma call_Continue:
  "call env e s = Continue u s' \<longleftrightarrow> passes env (trace s) e \<and> s' = s\<lparr>trace := trace s @ [e]\<rparr>"
  by (auto simp: call_def)

lemma call_not_Returned [simp]: "call env e s \<noteq> Returned s'"
  by (simp add: call_def)

lemma checks_from_append:
  "checks_from env pre (xs @ ys) \<longleftrightarrow> checks_from env pre xs \<and> checks_from env (pre @ xs) ys"
  by (induction xs arbitrary: pre) auto

lemma checks_extend:
  "checks_from env [] tr \<Longrightarrow> checks_from env tr es \<Longrightarrow> checks_from env [] (tr @ es)"
  by (simp add: checks_from_append)

lemma rpc_error_calls:
  "rpc_error [] (Some code) (Some (Py_bytes reason))
     = Inr (reason @ '' (code '' @ format_d code @ '')'')"
  "rpc_error [] (Some code) (Some (Py_str reason)) = Inl AttributeError"
  "rpc_error (x # xs) code_arg reason_arg = Inl TypeError"
  "rpc_error [] None reason_arg = Inl TypeError"
  "rpc_error [] code_arg None = Inl TypeError"
  by (simp_all add: rpc_error_def split: option.splits py_text.splits)

lemma then_do_Continue_iff:
  "then_do m f = Continue b s' \<longleftrightarrow> (\<exists>a s1. m = Continue a s1 \<and> f a s1 = Continue b s')"
  by (cases m) auto

lemma then_do_Returned_iff:
  "then_do m f = Returned s' \<longleftrightarrow> m = Returned s' \<or> (\<exists>a s1. m = Continue a s1 \<and> f a s1 = Returned s')"
  by (cases m) auto

lemma call_build_block_Continue:
  "call_build_block env parent txs t s = Continue (parent', block) s'
     \<longleftrightarrow> build_block env parent txs t s = Inr (parent', block, s')"
  by (auto simp: call_build_block_def split: sum.splits)

lemma call_build_block_not_Returned [simp]:
  "call_build_block env parent txs t s \<noteq> Returned s'"
  by (auto simp: call_build_block_def split: sum.splits)

lemma call_factory_Continue:
  "call_factory env f s = Continue (tx, f') s'
     \<longleftrightarrow> create_fund_and_spend_tx env f = Inr (tx, f') \<and> s' = s"
  by (auto simp: call_factory_def split: sum.splits)

lemma call_factory_not_Returned [simp]: "call_factory env f s \<noteq> Returned s'"
  by (auto simp: call_factory_def split: sum.splits)

lemma call_getbestblock_eq:
  "call_getbestblock env s = Continue (fst (getbestblock env s)) (snd (getbestblock env s))"
  by (simp add: call_getbestblock_def split: prod.splits)

lemma build_loop_Continue:
  "build_loop env ts tip blocks s = Continue (tip', blocks') s' \<Longrightarrow>
     trace s' = trace s \<and> length blocks' = length blocks + length ts
     \<and> (ts \<noteq> [] \<or> (blocks \<noteq> [] \<and> last blocks = tip) \<longrightarrow> blocks' \<noteq> [] \<and> last blocks' = tip')"
proof (induction ts arbitrary: tip blocks s)
  case Nil
  then show ?case by auto
next
  case (Cons t ts)
  from Cons.prems obtain parent b s1 where
    b: "build_block env tip [] t s = Inr (parent, b, s1)" and
    l: "build_loop env ts b ((if blocks = [] then [] else butlast blocks @ [parent]) @ [b]) s1
          = Continue (tip', blocks') s'"
    by (auto simp: then_do_Continue_iff call_build_block_Continue)
  from Cons.IH [OF l] build_block_trace [OF b] show ?case
    by (auto split: if_splits)
qed

lemma build_loop_not_Returned [simp]: "build_loop env ts tip blocks s \<noteq> Returned s'"
proof (induction ts arbitrary: tip blocks s)
  case Nil
  then show ?case by simp
next
  case (Cons t ts)
  then show ?case by (auto simp: then_do_Returned_iff)
qed

lemma mine_activation_block_Continue:
  assumes "mine_activation_block env tip tx2 s = Continue tip' s'"
  shows "\<exists>h. tip' = built_block env tip h [tx2] None
           \<and> block_heights s' = (block_heights s)(sha256 tip' \<mapsto> h)
           \<and> trace s' = trace s @
               [Logging_info ''Mine the activation block itself, including a minimaldata violation at the last possible moment'',
                Send_blocks_and_test [tip'] None None None,
                Logging_info ''We have activated!'',
                Assert_equal_mediantime NOV2019_START_TIME]
           \<and> checks_from env (trace s)
               [Logging_info ''Mine the activation block itself, including a minimaldata violation at the last possible moment'',
                Send_blocks_and_test [tip'] None None None,
                Logging_info ''We have activated!'',
                Assert_equal_mediantime NOV2019_START_TIME]"
  using assms unfolding mine_activation_block_def
  by (auto simp: then_do_Continue_iff call_Continue call_build_block_Continue build_block_Inr)

lemma post_activation_Returned:
  assumes "post_activation env tip tx3 s = Returned s'"
  shows "\<exists>h block. block = built_block env tip h [tx3] None
           \<and> block_heights s' = (block_heights s)(sha256 block \<mapsto> h)
           \<and> trace s' = trace s @
               [Logging_info ''Trying to mine a minimaldata violation, but we are just barely too late'',
                Send_blocks_and_test [block] (Some False) (Some True) (Some BADSIGNATURE_ERROR)]
           \<and> checks_from env (trace s)
               [Logging_info ''Trying to mine a minimaldata violation, but we are just barely too late'',
                Send_blocks_and_test [block] (Some False) (Some True) (Some BADSIGNATURE_ERROR)]"
  using assms unfolding post_activation_def check_for_ban_on_rejected_block_def
  by (auto simp: then_do_Returned_iff then_do_Continue_iff call_Continue call_build_block_Continue
        build_block_Inr)

lemma post_activation_not_Continue [simp]: "post_activation env tip tx3 s \<noteq> Continue a s'"
  unfolding post_activation_def check_for_ban_on_rejected_block_def
  by (auto simp: then_do_Continue_iff call_Continue)

lemma length_crossing_times [simp]: "length crossing_times = 6"
  by (simp add: crossing_times_def)

lemma crossing_times_not_Nil [simp]: "crossing_times \<noteq> []"
  by (simp add: crossing_times_def)

lemma approach_activation_Continue:
  assumes "approach_activation env tip s = Continue tip' s'"
  shows "\<exists>blocks. length blocks = 6 \<and> last blocks = tip'
           \<and> trace s' = trace s @
               [Logging_info ''Approach to just before upgrade activation'',
                Node_setmocktime NOV2019_START_TIME,
                Send_blocks_and_test blocks None None None,
                Assert_equal_mediantime (NOV2019_START_TIME - 1)]
           \<and> checks_from env (trace s)
               [Logging_info ''Approach to just before upgrade activation'',
                Node_setmocktime NOV2019_START_TIME,
                Send_blocks_and_test blocks None None None,
                Assert_equal_mediantime (NOV2019_START_TIME - 1)]"
  using assms unfolding approach_activation_def
  by (auto simp: then_do_Continue_iff call_Continue dest!: build_loop_Continue)

lemma call_getbestblock_Continue:
  "call_getbestblock env s = Continue tip s'
     \<longleftrightarrow> tip = fst (getbestblock env s) \<and> s' = snd (getbestblock env s)"
  by (auto simp: call_getbestblock_def split: prod.splits)

lemma call_getbestblock_not_Returned [simp]: "call_getbestblock env s \<noteq> Returned s'"
  by (auto simp: call_getbestblock_def split: prod.splits)

lemma case_sum_Continue_iff:
  "(case r of Inl e \<Rightarrow> Raised e s | Inr x \<Rightarrow> g x) = Continue a s'
     \<longleftrightarrow> (\<exists>x. r = Inr x \<and> g x = Continue a s')"
  by (cases r) auto

lemma case_sum_Returned_iff:
  "(case r of Inl e \<Rightarrow> Raised e s | Inr x \<Rightarrow> g x) = Returned s'
     \<longleftrightarrow> (\<exists>x. r = Inr x \<and> g x = Returned s')"
  by (cases r) auto

lemma setup_blocks_Continue:
  assumes "setup_blocks env s = Continue (tip, spendable) s'"
  shows "\<exists>blocks. length blocks = 10 \<and> first_txs blocks = Inr spendable
           \<and> trace s' = trace s @
               [Node_generate 1, Bootstrap_p2p,
                Logging_info ''Create some blocks with OP_1 coinbase for spending.'',
                Send_blocks_and_test blocks (Some True) None None,
                Logging_info ''Mature the blocks and get out of IBD.'',
                Node_generate 100]
           \<and> checks_from env (trace s)
               [Node_generate 1, Bootstrap_p2p,
                Logging_info ''Create some blocks with OP_1 coinbase for spending.'',
                Send_blocks_and_test blocks (Some True) None None,
                Logging_info ''Mature the blocks and get out of IBD.'',
                Node_generate 100]"
  using assms unfolding setup_blocks_def bootstrap_p2p_def
  by (auto simp: then_do_Continue_iff call_Continue call_getbestblock_Continue getbestblock_trace
           case_sum_Continue_iff dest!: build_loop_Continue)

lemma fund_fixtures_Continue:
  assumes "fund_fixtures env tip spendable s = Continue (tip', tx1, tx2, tx3) s'"
  shows "\<exists>f h. create_many env 3 \<lparr>spendable_outputs = spendable, fundings = []\<rparr>
                  = Inr ([tx1, tx2, tx3], f)
           \<and> tip' = built_block env tip h (fundings f) None
           \<and> trace s' = trace s @
               [Logging_info ''Setting up spends to test and mining the fundings.'',
                Send_blocks_and_test [tip'] None None None]
           \<and> checks_from env (trace s)
               [Logging_info ''Setting up spends to test and mining the fundings.'',
                Send_blocks_and_test [tip'] None None None]"
  using assms unfolding fund_fixtures_def
  by (auto simp: then_do_Continue_iff call_Continue call_factory_Continue
           call_build_block_Continue build_block_Inr numeral_3_eq_3)

lemma preupgrade_tests_Continue:
  assumes "preupgrade_tests env tip tx1 tx2 tx3 s = Continue tip' s'"
  shows "\<exists>h. tip' = built_block env tip h [tx1] None
           \<and> trace s' = trace s @
               [Logging_info ''Start preupgrade tests'',
                Logging_info ''Sending rejected transactions via RPC'',
                Assert_raises_rpc_error (-26) MINIMALPUSH_ERROR tx1,
                Assert_raises_rpc_error (-26) MINIMALPUSH_ERROR tx2,
                Assert_raises_rpc_error (-26) MINIMALPUSH_ERROR tx3,
                Logging_info ''Sending rejected transactions via net (no banning)'',
                Send_txs_and_test [tx1] (Some False) (Some False) (Some MINIMALPUSH_ERROR),
                Send_txs_and_test [tx2] (Some False) (Some False) (Some MINIMALPUSH_ERROR),
                Send_txs_and_test [tx3] (Some False) (Some False) (Some MINIMALPUSH_ERROR),
                Assert_equal_getrawmempool [],
                Logging_info ''Successfully mine nonstandard transaction'',
                Send_blocks_and_test [tip'] None None None]
           \<and> checks_from env (trace s)
               [Logging_info ''Start preupgrade tests'',
                Logging_info ''Sending rejected transactions via RPC'',
                Assert_raises_rpc_error (-26) MINIMALPUSH_ERROR tx1,
                Assert_raises_rpc_error (-26) MINIMALPUSH_ERROR tx2,
                Assert_raises_rpc_error (-26) MINIMALPUSH_ERROR tx3,
                Logging_info ''Sending rejected transactions via net (no banning)'',
                Send_txs_and_test [tx1] (Some False) (Some False) (Some MINIMALPUSH_ERROR),
                Send_txs_and_test [tx2] (Some False) (Some False) (Some MINIMALPUSH_ERROR),
                Send_txs_and_test [tx3] (Some False) (Some False) (Some MINIMALPUSH_ERROR),
                Assert_equal_getrawmempool [],
                Logging_info ''Successfully mine nonstandard transaction'',
                Send_blocks_and_test [tip'] None None None]"
  using assms unfolding preupgrade_tests_def check_for_no_ban_on_rejected_tx_def
  by (auto simp: then_do_Continue_iff call_Continue call_build_block_Continue build_block_Inr)

lemma setup_blocks_not_Returned [simp]: "setup_blocks env s \<noteq> Returned s'"
  unfolding setup_blocks_def bootstrap_p2p_def
  by (auto simp: then_do_Returned_iff case_sum_Returned_iff)

lemma fund_fixtures_not_Returned [simp]: "fund_fixtures env tip spendable s \<noteq> Returned s'"
  unfolding fund_fixtures_def
  by (auto simp: then_do_Returned_iff)

lemma preupgrade_tests_not_Returned [simp]:
  "preupgrade_tests env tip tx1 tx2 tx3 s \<noteq> Returned s'"
  unfolding preupgrade_tests_def check_for_no_ban_on_rejected_tx_def
  by (auto simp: then_do_Returned_iff)

lemma approach_activation_not_Returned [simp]: "approach_activation env tip s \<noteq> Returned s'"
  unfolding approach_activation_def
  by (auto simp: then_do_Returned_iff)

lemma mine_activation_block_not_Returned [simp]:
  "mine_activation_block env tip tx2 s \<noteq> Returned s'"
  unfolding mine_activation_block_def
  by (auto simp: then_do_Returned_iff)

subsection \<open>The trace of a run that returns\<close>

lemma run_test_Returned:
  assumes "run_test env = Returned s"
  shows "\<exists>blocks spendable f tx1 tx2 tx3 best funding_block fixture_block crossing_blocks
            activation_block rejected_block h1 h2 h3 h4.
           length blocks = 10 \<and> first_txs blocks = Inr spendable
           \<and> create_many env 3 \<lparr>spendable_outputs = spendable, fundings = []\<rparr>
                = Inr ([tx1, tx2, tx3], f)
           \<and> funding_block = built_block env best h1 (fundings f) None
           \<and> fixture_block = built_block env funding_block h2 [tx1] None
           \<and> length crossing_blocks = 6
           \<and> activation_block = built_block env (last crossing_blocks) h3 [tx2] None
           \<and> rejected_block = built_block env activation_block h4 [tx3] None
           \<and> block_heights s (sha256 rejected_block) = Some h4
           \<and> trace s = scenario_trace blocks tx1 tx2 tx3 funding_block fixture_block
                          crossing_blocks activation_block rejected_block
           \<and> checks_from env [] (trace s)"
proof -
  from assms obtain tipA spendable sA tipB tx1 tx2 tx3 sB tipC sC tipD sD tipE sE where
    p1: "setup_blocks env initial_state = Continue (tipA, spendable) sA" and
    p2: "fund_fixtures env tipA spendable sA = Continue (tipB, tx1, tx2, tx3) sB" and
    p3: "preupgrade_tests env tipB tx1 tx2 tx3 sB = Continue tipC sC" and
    p4: "approach_activation env tipC sC = Continue tipD sD" and
    p5: "mine_activation_block env tipD tx2 sD = Continue tipE sE" and
    p6: "post_activation env tipE tx3 sE = Returned s"
    unfolding run_test_def
    by (auto simp: then_do_Returned_iff)
  from setup_blocks_Continue [OF p1] obtain blocks where
    q1: "length blocks = 10" "first_txs blocks = Inr spendable"
      "trace sA = trace initial_state @
               [Node_generate 1, Bootstrap_p2p,
                Logging_info ''Create some blocks with OP_1 coinbase for spending.'',
                Send_blocks_and_test blocks (Some True) None None,
                Logging_info ''Mature the blocks and get out of IBD.'',
                Node_generate 100]"
      "checks_from env (trace initial_state)
               [Node_generate 1, Bootstrap_p2p,
                Logging_info ''Create some blocks with OP_1 coinbase for spending.'',
                Send_blocks_and_test blocks (Some True) None None,
                Logging_info ''Mature the blocks and get out of IBD.'',
                Node_generate 100]"
    by auto
  from fund_fixtures_Continue [OF p2] obtain f h1 where
    q2: "create_many env 3 \<lparr>spendable_outputs = spendable, fundings = []\<rparr>
                  = Inr ([tx1, tx2, tx3], f)"
      "tipB = built_block env tipA h1 (fundings f) None"
      "trace sB = trace sA @
               [Logging_info ''Setting up spends to test and mining the fundings.'',
                Send_blocks_and_test [tipB] None None None]"
      "checks_from env (trace sA)
               [Logging_info ''Setting up spends to test and mining the fundings.'',
                Send_blocks_and_test [tipB] None None None]"
    by auto
  from preupgrade_tests_Continue [OF p3] obtain h2 where
    q3: "tipC = built_block env tipB h2 [tx1] None"
      "trace sC = trace sB @
               [Logging_info ''Start preupgrade tests'',
                Logging_info ''Sending rejected transactions via RPC'',
                Assert_raises_rpc_error (-26) MINIMALPUSH_ERROR tx1,
                Assert_raises_rpc_error (-26) MINIMALPUSH_ERROR tx2,
                Assert_raises_rpc_error (-26) MINIMALPUSH_ERROR tx3,
                Logging_info ''Sending rejected transactions via net (no banning)'',
                Send_txs_and_test [tx1] (Some False) (Some False) (Some MINIMALPUSH_ERROR),
                Send_txs_and_test [tx2] (Some False) (Some False) (Some MINIMALPUSH_ERROR),
                Send_txs_and_test [tx3] (Some False) (Some False) (Some MINIMALPUSH_ERROR),
                Assert_equal_getrawmempool [],
                Logging_info ''Successfully mine nonstandard transaction'',
                Send_blocks_and_test [tipC] None None None]"
      "checks_from env (trace sB)
               [Logging_info ''Start preupgrade tests'',
                Logging_info ''Sending rejected transactions via RPC'',
                Assert_raises_rpc_error (-26) MINIMALPUSH_ERROR tx1,
                Assert_raises_rpc_error (-26) MINIMALPUSH_ERROR tx2,
                Assert_raises_rpc_error (-26) MINIMALPUSH_ERROR tx3,
                Logging_info ''Sending rejected transactions via net (no banning)'',
                Send_txs_and_test [tx1] (Some False) (Some False) (Some MINIMALPUSH_ERROR),
                Send_txs_and_test [tx2] (Some False) (Some False) (Some MINIMALPUSH_ERROR),
                Send_txs_and_test [tx3] (Some False) (Some False) (Some MINIMALPUSH_ERROR),
                Assert_equal_getrawmempool [],
                Logging_info ''Successfully mine nonstandard transaction'',
                Send_blocks_and_test [tipC] None None None]"
    by auto
  from approach_activation_Continue [OF p4] obtain crossing_blocks where
    q4: "length crossing_blocks = 6" "last crossing_blocks = tipD"
      "trace sD = trace sC @
               [Logging_info ''Approach to just before upgrade activation'',
                Node_setmocktime NOV2019_START_TIME,
                Send_blocks_and_test crossing_blocks None None None,
                Assert_equal_mediantime (NOV2019_START_TIME - 1)]"
      "checks_from env (trace sC)
               [Logging_info ''Approach to just before upgrade activation'',
                Node_setmocktime NOV2019_START_TIME,
                Send_blocks_and_test crossing_blocks None None None,
                Assert_equal_mediantime (NOV2019_START_TIME - 1)]"
    by auto
  from mine_activation_block_Continue [OF p5] obtain h3 where
    q5: "tipE = built_block env tipD h3 [tx2] None"
      "trace sE = trace sD @
               [Logging_info ''Mine the activation block itself, including a minimaldata violation at the last possible moment'',
                Send_blocks_and_test [tipE] None None None,
                Logging_info ''We have activated!'',
                Assert_equal_mediantime NOV2019_START_TIME]"
      "checks_from env (trace sD)
               [Logging_info ''Mine the activation block itself, including a minimaldata violation at the last possible moment'',
                Send_blocks_and_test [tipE] None None None,
                Logging_info ''We have activated!'',
                Assert_equal_mediantime NOV2019_START_TIME]"
    by auto
  from post_activation_Returned [OF p6] obtain h4 rejected_block where
    q6: "rejected_block = built_block env tipE h4 [tx3] None"
      "block_heights s = (block_heights sE)(sha256 rejected_block \<mapsto> h4)"
      "trace s = trace sE @
               [Logging_info ''Trying to mine a minimaldata violation, but we are just barely too late'',
                Send_blocks_and_test [rejected_block] (Some False) (Some True) (Some BADSIGNATURE_ERROR)]"
      "checks_from env (trace sE)
               [Logging_info ''Trying to mine a minimaldata violation, but we are just barely too late'',
                Send_blocks_and_test [rejected_block] (Some False) (Some True) (Some BADSIGNATURE_ERROR)]"
    by auto
  have t: "trace s = scenario_trace blocks tx1 tx2 tx3 tipB tipC crossing_blocks tipE rejected_block"
    using q1(3) q2(3) q3(2) q4(3) q5(2) q6(3)
    by (simp add: scenario_trace_def initial_state_def)
  have h: "block_heights s (sha256 rejected_block) = Some h4"
    using q6(2) by simp
  have "checks_from env [] (trace sA)"
    using q1(3,4) by (simp add: initial_state_def)
  then have "checks_from env [] (trace sB)"
    unfolding q2(3) using q2(4) by (rule checks_extend)
  then have "checks_from env [] (trace sC)"
    unfolding q3(2) using q3(3) by (rule checks_extend)
  then have "checks_from env [] (trace sD)"
    unfolding q4(3) using q4(4) by (rule checks_extend)
  then have "checks_from env [] (trace sE)"
    unfolding q5(2) using q5(3) by (rule checks_extend)
  then have c: "checks_from env [] (trace s)"
    unfolding q6(3) using q6(4) by (rule checks_extend)
  show ?thesis
    apply (rule exI [of _ blocks], rule exI [of _ spendable], rule exI [of _ f])
    apply (rule exI [of _ tx1], rule exI [of _ tx2], rule exI [of _ tx3])
    apply (rule exI [of _ tipA], rule exI [of _ tipB], rule exI [of _ tipC])
    apply (rule exI [of _ crossing_blocks], rule exI [of _ tipE], rule exI [of _ rejected_block])
    apply (rule exI [of _ h1], rule exI [of _ h2], rule exI [of _ h3], rule exI [of _ h4])
    using q1(1,2) q2(1,2) q3(1) q4(1,2) q5(1) q6(1) t h c by simp
qed

subsection \<open>Statements that go on to the next one\<close>

lemma registered_trace [simp]: "registered env tip (s\<lparr>trace := tr\<rparr>) = registered env tip s"
  by (simp add: registered_def)

lemma registered_known: "registered env tip s = known env tip (block_heights s)"
  by (simp add: registered_def known_def)

lemma built_block_hashed:
  "well_behaved env \<Longrightarrow>
     sha256 (calc_sha256 env (built_block env parent h txs t)) = sha256 (built_block env parent h txs t)"
  by (simp add: well_behaved_def built_block_def Let_def)

lemma built_block_spendable: "well_behaved env \<Longrightarrow> spendable_block (built_block env parent h txs t)"
proof -
  assume "well_behaved env"
  then obtain coinbase rest out outs where
    "vtx (built_block env parent h txs t) = coinbase # rest" "vout coinbase = out # outs"
    unfolding well_behaved_def by blast
  then show ?thesis by (simp add: spendable_block_def)
qed

lemma calc_spendable:
  "well_behaved env \<Longrightarrow> spendable_block (calc_sha256 env b) = spendable_block b"
  by (simp add: well_behaved_def spendable_block_def)

lemma call_build_block_registered:
  assumes "well_behaved env" and "registered env tip s"
  shows "\<exists>h s'. call_build_block env tip txs t s
                   = Continue (calc_sha256 env tip, built_block env tip h txs t) s'
           \<and> registered env (built_block env tip h txs t) s' \<and> trace s' = trace s"
proof -
  from assms(2) obtain h where h: "block_heights s (sha256 (calc_sha256 env tip)) = Some h"
    by (auto simp: registered_def)
  let ?b = "built_block env tip (h + 1) txs t"
  have "build_block env tip txs t s
          = Inr (calc_sha256 env tip, ?b, s\<lparr>block_heights := (block_heights s)(sha256 ?b \<mapsto> h + 1)\<rparr>)"
    using h by (simp add: build_block_Inr)
  then show ?thesis
    using built_block_hashed [OF assms(1)]
    by (auto simp: call_build_block_def registered_def)
qed

lemma getbestblock_registered:
  "well_behaved env \<Longrightarrow> registered env (fst (getbestblock env s)) (snd (getbestblock env s))"
  by (simp add: well_behaved_def registered_def getbestblock_def Let_def)

lemma first_txs_progress:
  "list_all spendable_block blocks \<Longrightarrow>
     \<exists>pool. first_txs blocks = Inr pool \<and> length pool = length blocks
        \<and> list_all (\<lambda>t. vout t \<noteq> []) pool"
proof (induction blocks)
  case Nil
  then show ?case by simp
next
  case (Cons b blocks)
  then show ?case
    by (cases "vtx b") (auto simp: spendable_block_def)
qed

lemma factory_progress:
  assumes "spendable_outputs f \<noteq> []" and "list_all (\<lambda>t. vout t \<noteq> []) (spendable_outputs f)"
  shows "\<exists>tx f'. create_fund_and_spend_tx env f = Inr (tx, f')
           \<and> spendable_outputs f' = butlast (spendable_outputs f)"
proof -
  from assms have "vout (last (spendable_outputs f)) \<noteq> []"
    by (simp add: list_all_iff)
  then obtain out0 outs where "vout (last (spendable_outputs f)) = out0 # outs"
    by (cases "vout (last (spendable_outputs f))") auto
  with assms(1) show ?thesis
    by (simp add: create_fund_and_spend_tx_def spend_tx_def CTransaction_new_def Let_def)
qed

lemma proceeds_then:
  assumes "proceeds m P R" and "\<And>a. proceeds (f a) (R a) Q"
  shows "proceeds (\<lambda>s. then_do (m s) f) P Q"
  unfolding proceeds_def
proof (intro allI impI)
  fix s assume "P s"
  with assms(1) obtain a s1 where m: "m s = Continue a s1" and r: "R a s1"
    unfolding proceeds_def by blast
  from assms(2) [of a] r obtain b s2 where "f a s1 = Continue b s2" "Q b s2"
    unfolding proceeds_def by blast
  with m show "\<exists>b s'. then_do (m s) f = Continue b s' \<and> Q b s'" by simp
qed

lemma proceeds_done:
  assumes "\<And>s. P s \<Longrightarrow> Q a s"
  shows "proceeds (Continue a) P Q"
  using assms by (simp add: proceeds_def)

lemma proceeds_case_prod:
  assumes "\<And>x y. proceeds (F x y) (R x y) Q"
  shows "proceeds (case_prod F a) (case_prod R a) Q"
  using assms by (cases a) simp

lemma proceeds_pure:
  assumes "F \<Longrightarrow> proceeds m P Q"
  shows "proceeds m (\<lambda>s. P s \<and> F) Q"
  using assms unfolding proceeds_def by blast

lemma proceeds_case_sum:
  assumes "r = Inr x" and "proceeds (g x) P Q"
  shows "proceeds (\<lambda>s. case r of Inl e \<Rightarrow> Raised e s | Inr x \<Rightarrow> g x s) P Q"
  using assms by simp

lemma returns_then:
  assumes "proceeds m P R" and "\<And>a. returns (f a) (R a)"
  shows "returns (\<lambda>s. then_do (m s) f) P"
  unfolding returns_def
proof (intro allI impI)
  fix s assume "P s"
  with assms(1) obtain a s1 where m: "m s = Continue a s1" and r: "R a s1"
    unfolding proceeds_def by blast
  from assms(2) [of a] r obtain s2 where "f a s1 = Returned s2"
    unfolding returns_def by blast
  with m show "\<exists>s'. then_do (m s) f = Returned s'" by simp
qed

lemma returns_Returned: "returns Returned P"
  by (simp add: returns_def)

lemma returns_case_prod:
  assumes "\<And>x y. returns (F x y) (R x y)"
  shows "returns (case_prod F a) (case_prod R a)"
  using assms by (cases a) simp

lemma returns_pure:
  assumes "F \<Longrightarrow> returns m P"
  shows "returns m (\<lambda>s. P s \<and> F)"
  using assms unfolding returns_def by blast

lemma returns_first:
  assumes "returns m P"
  shows "returns (\<lambda>s. then_do (m s) f) P"
  using assms unfolding returns_def by fastforce

subsection \<open>The plain node\<close>

lemma plain_well_behaved: "well_behaved plain_framework"
  by (simp add: well_behaved_def built_block_def plain_framework_def plain_block_hash_def
        CScript_def Let_def)

lemma plain_node:
  "connection_state plain_framework tr = ''connected''"
  "blocks_outcome plain_framework tr blocks =
     (if plain_rejects (plain_chain tr) blocks then RejectedWithBan (Some BADSIGNATURE_ERROR)
      else Accepted)"
  "txs_outcome plain_framework tr txs =
     (if list_all tx_minimal txs then Accepted else RejectedNoBan (Some MINIMALPUSH_ERROR))"
  "sendrawtransaction plain_framework tr tx =
     (if tx_minimal tx then None else Some (-26, MINIMALPUSH_ERROR))"
  "getrawmempool plain_framework tr = []"
  "mediantime plain_framework tr = plain_mtp (plain_chain tr)"
  "getblockcount plain_framework tr = 189 + int (length (plain_chain tr))"
  by (simp_all add: plain_framework_def)

lemma plain_chain_snoc: "plain_chain (tr @ [e]) = plain_step (plain_chain tr) e"
  by (simp add: plain_chain_def)

lemma plain_nTime:
  "nTime (calc_sha256 plain_framework b) = nTime b"
  "nTime (built_block plain_framework tip h txs t)
     = (case t of None \<Rightarrow> nTime tip + 1 | Some u \<Rightarrow> u)"
  by (simp_all add: plain_framework_def built_block_def Let_def split: option.splits)

lemma plain_built_vtx:
  "vtx (built_block plain_framework tip h txs t) = plain_coinbase h # txs"
  by (simp add: plain_framework_def built_block_def plain_coinbase_def Let_def)

lemma median_in_chain:
  assumes "chain \<noteq> []"
  shows "\<exists>m. median_time_past chain = Some m \<and> m \<in> set chain"
proof -
  let ?w = "drop (length chain - 11) chain"
  have ne: "?w \<noteq> []" using assms by (cases chain) auto
  then have "length ?w div 2 < length (sort ?w)" by (cases ?w) auto
  then have "sort ?w ! (length ?w div 2) \<in> set (sort ?w)" by (rule nth_mem)
  then have "sort ?w ! (length ?w div 2) \<in> set chain"
    by (auto dest: in_set_dropD)
  with ne show ?thesis by (simp add: median_time_past_def Let_def)
qed

lemma early_not_rejected:
  assumes "chain \<noteq> []" and "list_all plain_early chain"
  shows "\<not> plain_rejects chain blocks"
proof -
  from median_in_chain [OF assms(1)] obtain m where
    m: "median_time_past chain = Some m" "m \<in> set chain" by blast
  with assms(2) have "m \<le> 1573000100" by (auto simp: list_all_iff plain_early_def)
  with m(1) show ?thesis
    by (simp add: plain_rejects_def plain_mtp_def NOV2019_START_TIME_def)
qed

lemma early_old:
  assumes "list_all plain_early old"
  shows "\<forall>t\<in>set (drop (length old - 5) old). t \<le> NOV2019_START_TIME - 1"
  using assms
  by (auto simp: list_all_iff plain_early_def NOV2019_START_TIME_def dest!: in_set_dropD)

lemma crossed_mtp:
  assumes "chain_crossed crossing_times chain"
  shows "plain_mtp chain = NOV2019_START_TIME - 1"
proof -
  from assms obtain old where
    o: "chain = old @ crossing_times" "5 \<le> length old" "list_all plain_early old"
    by (auto simp: chain_crossed_def)
  from crossing_median [OF o(2) early_old [OF o(3)]] o(1) show ?thesis
    by (simp add: plain_mtp_def)
qed

lemma activated_mtp:
  assumes "chain_crossed (crossing_times @ [t]) chain" and "NOV2019_START_TIME + 4 \<le> t"
  shows "plain_mtp chain = NOV2019_START_TIME"
proof -
  from assms(1) obtain old where
    o: "chain = old @ crossing_times @ [t]" "5 \<le> length old" "list_all plain_early old"
    by (auto simp: chain_crossed_def)
  from activation_median [OF o(2) early_old [OF o(3)] assms(2)] o(1) show ?thesis
    by (simp add: plain_mtp_def)
qed

lemma plain_fixture_not_minimal:
  assumes "create_fund_and_spend_tx plain_framework f = Inr (tx, f')"
  shows "\<not> tx_minimal tx"
proof -
  from create_fund_and_spend_tx_Inr [OF assms] plain_keeps_inputs
  have "map scriptSig (vin tx) = [[0x01, 0x01, 0x51]]"
    unfolding keeps_inputs_def by auto
  then obtain i where "vin tx = [i]" "scriptSig i = [0x01, 0x01, 0x51]"
    by auto
  then show ?thesis
    by (simp add: tx_minimal_def script_minimal_def take_push_def)
qed

subsection \<open>The calls of the run on the plain instance\<close>

lemma plain_event:
  assumes "\<And>tr. C (plain_chain tr) \<Longrightarrow>
             passes plain_framework tr e \<and> C' (plain_step (plain_chain tr) e)"
  shows "proceeds (call plain_framework e) (plain_state R C) (\<lambda>_. plain_state R C')"
  using assms by (simp add: proceeds_def call_def plain_state_def plain_chain_snoc)

lemma plain_quiet:
  assumes "\<And>chain. plain_step chain e = chain" and "\<And>tr. passes plain_framework tr e"
  shows "proceeds (call plain_framework e) (plain_state R C) (\<lambda>_. plain_state R C)"
  by (rule plain_event) (simp add: assms)

lemma plain_log:
  "proceeds (call plain_framework (Logging_info message)) (plain_state R C)
     (\<lambda>_. plain_state R C)"
  by (rule plain_quiet) (simp_all add: plain_step_def)

lemma plain_setmocktime:
  "proceeds (call plain_framework (Node_setmocktime t)) (plain_state R C)
     (\<lambda>_. plain_state R C)"
  by (rule plain_quiet) (simp_all add: plain_step_def)

lemma plain_bootstrap:
  "proceeds (bootstrap_p2p plain_framework) (plain_state R C) (\<lambda>_. plain_state R C)"
  unfolding bootstrap_p2p_def [abs_def]
  by (rule plain_quiet) (simp_all add: plain_step_def plain_node)

lemma plain_rpc_rejected:
  assumes "\<not> tx_minimal tx"
  shows "proceeds (call plain_framework (Assert_raises_rpc_error (-26) MINIMALPUSH_ERROR tx))
           (plain_state R C) (\<lambda>_. plain_state R C)"
  by (rule plain_quiet) (simp_all add: plain_step_def plain_node assms)

lemma plain_tx_rejected:
  assumes "\<not> tx_minimal tx"
  shows "proceeds (check_for_no_ban_on_rejected_tx plain_framework tx MINIMALPUSH_ERROR)
           (plain_state R C) (\<lambda>_. plain_state R C)"
  unfolding check_for_no_ban_on_rejected_tx_def [abs_def]
  by (rule plain_quiet) (simp_all add: plain_step_def plain_node assms expected_result_def)

lemma plain_mempool:
  "proceeds (call plain_framework (Assert_equal_getrawmempool [])) (plain_state R C)
     (\<lambda>_. plain_state R C)"
  by (rule plain_quiet) (simp_all add: plain_step_def plain_node)

lemma plain_generate:
  "proceeds (call plain_framework (Node_generate k)) (plain_state R (chain_early n))
     (\<lambda>_. plain_state R (chain_early (n + nat k)))"
proof (rule plain_event)
  fix tr assume c: "chain_early n (plain_chain tr)"
  then have "plain_chain tr \<noteq> []" by (auto simp: chain_early_def)
  then have "last (plain_chain tr) \<in> set (plain_chain tr)" by simp
  with c have "plain_early (last (plain_chain tr))" by (auto simp: chain_early_def list_all_iff)
  with c show "passes plain_framework tr (Node_generate k)
                 \<and> chain_early (n + nat k) (plain_step (plain_chain tr) (Node_generate k))"
    by (auto simp: chain_early_def plain_step_def list_all_iff)
qed

lemma plain_send_early:
  assumes "list_all (\<lambda>b. plain_early (nTime b)) blocks"
    and "expected_result success expect_ban reject_reason = Accepted"
  shows "proceeds
           (call plain_framework (Send_blocks_and_test blocks success expect_ban reject_reason))
           (plain_state R (chain_early n))
           (\<lambda>_. plain_state R (chain_early (n + length blocks)))"
proof (rule plain_event)
  fix tr assume c: "chain_early n (plain_chain tr)"
  then have ne: "plain_chain tr \<noteq> []" and e: "list_all plain_early (plain_chain tr)"
    by (auto simp: chain_early_def)
  from early_not_rejected [OF ne e] c assms
  show "passes plain_framework tr (Send_blocks_and_test blocks success expect_ban reject_reason)
          \<and> chain_early (n + length blocks)
              (plain_step (plain_chain tr)
                 (Send_blocks_and_test blocks success expect_ban reject_reason))"
    by (auto simp: chain_early_def plain_step_def plain_node list_all_iff)
qed

lemma plain_send_crossing:
  assumes "map nTime blocks = crossing_times"
    and "expected_result success expect_ban reject_reason = Accepted"
  shows "proceeds
           (call plain_framework (Send_blocks_and_test blocks success expect_ban reject_reason))
           (plain_state R (chain_early n))
           (\<lambda>_. plain_state R (chain_crossed crossing_times))"
proof (rule plain_event)
  fix tr assume c: "chain_early n (plain_chain tr)"
  then have ne: "plain_chain tr \<noteq> []" and e: "list_all plain_early (plain_chain tr)"
    and l: "5 \<le> length (plain_chain tr)"
    by (auto simp: chain_early_def)
  from early_not_rejected [OF ne e] e l assms
  show "passes plain_framework tr (Send_blocks_and_test blocks success expect_ban reject_reason)
          \<and> chain_crossed crossing_times
              (plain_step (plain_chain tr)
                 (Send_blocks_and_test blocks success expect_ban reject_reason))"
    by (auto simp: chain_crossed_def plain_step_def plain_node)
qed

lemma plain_mediantime_crossed:
  "proceeds (call plain_framework (Assert_equal_mediantime (NOV2019_START_TIME - 1)))
     (plain_state R (chain_crossed crossing_times))
     (\<lambda>_. plain_state R (chain_crossed crossing_times))"
  by (rule plain_event) (simp add: plain_step_def plain_node crossed_mtp)

lemma plain_send_activation:
  assumes "expected_result success expect_ban reject_reason = Accepted"
  shows "proceeds
           (call plain_framework (Send_blocks_and_test [block] success expect_ban reject_reason))
           (plain_state R (chain_crossed crossing_times))
           (\<lambda>_. plain_state R (chain_crossed (crossing_times @ [nTime block])))"
proof (rule plain_event)
  fix tr assume c: "chain_crossed crossing_times (plain_chain tr)"
  from crossed_mtp [OF c] have n: "\<not> plain_rejects (plain_chain tr) [block]"
    by (simp add: plain_rejects_def)
  from c n assms
  show "passes plain_framework tr (Send_blocks_and_test [block] success expect_ban reject_reason)
          \<and> chain_crossed (crossing_times @ [nTime block])
              (plain_step (plain_chain tr)
                 (Send_blocks_and_test [block] success expect_ban reject_reason))"
    by (auto simp: chain_crossed_def plain_step_def plain_node)
qed

lemma plain_mediantime_activated:
  assumes "NOV2019_START_TIME + 4 \<le> t"
  shows "proceeds (call plain_framework (Assert_equal_mediantime NOV2019_START_TIME))
           (plain_state R (chain_crossed (crossing_times @ [t])))
           (\<lambda>_. plain_state R (chain_crossed (crossing_times @ [t])))"
  by (rule plain_event) (simp add: plain_step_def plain_node activated_mtp [OF _ assms])

lemma plain_send_rejected:
  assumes "NOV2019_START_TIME + 4 \<le> t" and "\<not> block_minimal block"
  shows "proceeds
           (check_for_ban_on_rejected_block plain_framework block (Some BADSIGNATURE_ERROR))
           (plain_state R (chain_crossed (crossing_times @ [t])))
           (\<lambda>_. plain_state R (chain_crossed (crossing_times @ [t])))"
  unfolding check_for_ban_on_rejected_block_def [abs_def]
proof (rule plain_event)
  fix tr assume c: "chain_crossed (crossing_times @ [t]) (plain_chain tr)"
  from activated_mtp [OF c assms(1)] assms(2)
  have r: "plain_rejects (plain_chain tr) [block]"
    by (simp add: plain_rejects_def)
  with c
  show "passes plain_framework tr
          (Send_blocks_and_test [block] (Some False) (Some True) (Some BADSIGNATURE_ERROR))
          \<and> chain_crossed (crossing_times @ [t])
              (plain_step (plain_chain tr)
                 (Send_blocks_and_test [block] (Some False) (Some True)
                    (Some BADSIGNATURE_ERROR)))"
    by (simp add: plain_step_def plain_node expected_result_def)
qed

lemma plain_getbestblock:
  "proceeds (call_getbestblock plain_framework) (plain_state R (chain_early n))
     (\<lambda>tip s. plain_state (known plain_framework tip) (chain_early n) s
                \<and> nTime tip = 1573000000 + (189 + int n) div 100)"
  unfolding proceeds_def
proof (intro allI impI)
  fix s assume p: "plain_state R (chain_early n) s"
  let ?tip = "fst (getbestblock plain_framework s)"
  let ?s = "snd (getbestblock plain_framework s)"
  have k: "known plain_framework ?tip (block_heights ?s)"
    using getbestblock_registered [OF plain_well_behaved, of s] by (simp add: registered_known)
  from p have l: "length (plain_chain (trace s)) = n"
    by (simp add: plain_state_def chain_early_def)
  have t: "nTime ?tip = 1573000000 + (189 + int n) div 100"
    using l by (simp add: getbestblock_def Let_def plain_node plain_nTime)
               (simp add: plain_framework_def)
  from p k t show "\<exists>a s'. call_getbestblock plain_framework s = Continue a s'
                     \<and> plain_state (known plain_framework a) (chain_early n) s'
                     \<and> nTime a = 1573000000 + (189 + int n) div 100"
    by (simp add: call_getbestblock_eq plain_state_def getbestblock_trace)
qed

lemma plain_build_block:
  "proceeds (call_build_block plain_framework tip txs t) (plain_state (known plain_framework tip) C)
     (\<lambda>(parent, block) s. plain_state (known plain_framework block) C s
        \<and> (parent = calc_sha256 plain_framework tip
             \<and> (\<exists>h. block = built_block plain_framework tip h txs t)))"
  unfolding proceeds_def
proof (intro allI impI)
  fix s assume p: "plain_state (known plain_framework tip) C s"
  then have "registered plain_framework tip s"
    by (simp add: plain_state_def registered_known)
  from call_build_block_registered [OF plain_well_behaved this, of txs t] obtain h s' where
    b: "call_build_block plain_framework tip txs t s
          = Continue (calc_sha256 plain_framework tip, built_block plain_framework tip h txs t) s'"
    and r: "registered plain_framework (built_block plain_framework tip h txs t) s'"
    and tr: "trace s' = trace s"
    by blast
  from p r tr have "plain_state (known plain_framework (built_block plain_framework tip h txs t)) C s'"
    by (simp add: plain_state_def registered_known)
  with b show "\<exists>a s'. call_build_block plain_framework tip txs t s = Continue a s' \<and>
          (case a of (parent, block) \<Rightarrow> \<lambda>s. plain_state (known plain_framework block) C s
             \<and> (parent = calc_sha256 plain_framework tip
                  \<and> (\<exists>h. block = built_block plain_framework tip h txs t))) s'"
    by auto
qed

lemma plain_build_loop_steps:
  "registered plain_framework tip s \<Longrightarrow> list_all spendable_block blocks \<Longrightarrow>
   blocks = [] \<or> last blocks = tip \<Longrightarrow>
     \<exists>tip' blocks' s'. build_loop plain_framework ts tip blocks s = Continue (tip', blocks') s'
        \<and> registered plain_framework tip' s' \<and> list_all spendable_block blocks'
        \<and> map nTime blocks' = map nTime blocks @ loop_times (nTime tip) ts
        \<and> nTime tip' = last (nTime tip # loop_times (nTime tip) ts)"
proof (induction ts arbitrary: tip blocks s)
  case Nil
  then show ?case by simp
next
  case (Cons t ts)
  from call_build_block_registered [OF plain_well_behaved Cons.prems(1), of "[]" t] obtain h s1 where
    b: "call_build_block plain_framework tip [] t s
          = Continue (calc_sha256 plain_framework tip, built_block plain_framework tip h [] t) s1" and
    r: "registered plain_framework (built_block plain_framework tip h [] t) s1"
    by blast
  let ?new = "built_block plain_framework tip h [] t"
  let ?blocks = "(if blocks = [] then [] else butlast blocks @ [calc_sha256 plain_framework tip])
                   @ [?new]"
  have last_ok: "blocks \<noteq> [] \<Longrightarrow> spendable_block (calc_sha256 plain_framework tip)"
    using Cons.prems(2,3) calc_spendable [OF plain_well_behaved, of tip]
    by (auto simp: list_all_iff)
  have "list_all spendable_block (butlast blocks)"
    using Cons.prems(2) by (auto simp: list_all_iff dest: in_set_butlastD)
  then have sp: "list_all spendable_block ?blocks"
    using last_ok built_block_spendable [OF plain_well_behaved] by simp
  have l: "?blocks = [] \<or> last ?blocks = ?new"
    by simp
  have "blocks \<noteq> [] \<Longrightarrow> map nTime blocks = map nTime (butlast blocks) @ [nTime tip]"
  proof -
    assume ne: "blocks \<noteq> []"
    with Cons.prems(3) have "blocks = butlast blocks @ [tip]"
      by (metis append_butlast_last_id)
    then have "map nTime blocks = map nTime (butlast blocks @ [tip])" by simp
    then show ?thesis by simp
  qed
  then have m: "map nTime ?blocks = map nTime blocks @ [nTime ?new]"
    by (simp add: plain_nTime)
  from Cons.IH [OF r sp l] obtain tip' blocks' s' where
    i: "build_loop plain_framework ts ?new ?blocks s1 = Continue (tip', blocks') s'"
      "registered plain_framework tip' s'" "list_all spendable_block blocks'"
      "map nTime blocks' = map nTime ?blocks @ loop_times (nTime ?new) ts"
      "nTime tip' = last (nTime ?new # loop_times (nTime ?new) ts)"
    by blast
  have "build_loop plain_framework (t # ts) tip blocks s = Continue (tip', blocks') s'"
    using b i(1) by simp
  moreover have "map nTime blocks' = map nTime blocks @ loop_times (nTime tip) (t # ts)"
    using i(4) m by (simp add: plain_nTime)
  moreover have "nTime tip' = last (nTime tip # loop_times (nTime tip) (t # ts))"
    using i(5) by (simp add: plain_nTime)
  ultimately show ?case using i(2,3) by blast
qed

lemma plain_build_loop:
  "proceeds (build_loop plain_framework ts tip []) (plain_state (known plain_framework tip) C)
     (\<lambda>(tip', blocks) s. plain_state (known plain_framework tip') C s
        \<and> (length blocks = length ts \<and> list_all spendable_block blocks
             \<and> map nTime blocks = loop_times (nTime tip) ts
             \<and> nTime tip' = last (nTime tip # loop_times (nTime tip) ts)))"
  unfolding proceeds_def
proof (intro allI impI)
  fix s assume p: "plain_state (known plain_framework tip) C s"
  then have r: "registered plain_framework tip s"
    by (simp add: plain_state_def registered_known)
  from plain_build_loop_steps [OF r, of "[]" ts] obtain tip' blocks' s' where
    l: "build_loop plain_framework ts tip [] s = Continue (tip', blocks') s'" and
    q: "registered plain_framework tip' s'" "list_all spendable_block blocks'"
      "map nTime blocks' = loop_times (nTime tip) ts"
      "nTime tip' = last (nTime tip # loop_times (nTime tip) ts)"
    by auto
  from build_loop_Continue [OF l] have t: "trace s' = trace s" "length blocks' = length ts"
    by simp_all
  from p q(1) t(1) have "plain_state (known plain_framework tip') C s'"
    by (simp add: plain_state_def registered_known)
  with l q t(2)
  show "\<exists>a s'. build_loop plain_framework ts tip [] s = Continue a s' \<and>
          (case a of (tip', blocks) \<Rightarrow> \<lambda>s. plain_state (known plain_framework tip') C s
             \<and> (length blocks = length ts \<and> list_all spendable_block blocks
                  \<and> map nTime blocks = loop_times (nTime tip) ts
                  \<and> nTime tip' = last (nTime tip # loop_times (nTime tip) ts))) s'"
    by simp
qed

lemma loop_times_Some: "loop_times t (map Some xs) = xs"
  by (induction xs arbitrary: t) simp_all

lemma loop_times_None:
  "loop_times t (replicate k None) = map (\<lambda>i. t + 1 + int i) [0..<k]"
proof (induction k arbitrary: t)
  case 0
  show ?case by simp
next
  case (Suc k)
  have "map (\<lambda>i. t + 1 + int i) [0..<Suc k]
          = (t + 1) # map (\<lambda>i. t + 1 + int i) (map Suc [0..<k])"
    by (simp only: upt_conv_Cons map_Suc_upt [symmetric]) simp
  also have "\<dots> = (t + 1) # map (\<lambda>i. t + 1 + 1 + int i) [0..<k]"
    by (simp add: comp_def add.commute add.left_commute)
  finally show ?case using Suc.IH [of "t + 1"] by simp
qed

lemma plain_factory:
  assumes "pool_ok n f" and "0 < n"
  shows "proceeds (call_factory plain_framework f) P
           (\<lambda>(tx, f') s. P s \<and> (pool_ok (n - 1) f' \<and> \<not> tx_minimal tx))"
  unfolding proceeds_def
proof (intro allI impI)
  fix s assume p: "P s"
  from assms have ne: "spendable_outputs f \<noteq> []" and
    al: "list_all (\<lambda>t. vout t \<noteq> []) (spendable_outputs f)"
    by (auto simp: pool_ok_def)
  from factory_progress [OF ne al, of plain_framework] obtain tx f' where
    c: "create_fund_and_spend_tx plain_framework f = Inr (tx, f')" and
    b: "spendable_outputs f' = butlast (spendable_outputs f)"
    by blast
  have "pool_ok (n - 1) f'"
    using assms(1) b by (auto simp: pool_ok_def list_all_iff dest: in_set_butlastD)
  with c p plain_fixture_not_minimal [OF c]
  show "\<exists>a s'. call_factory plain_framework f s = Continue a s' \<and>
          (case a of (tx, f') \<Rightarrow> \<lambda>s. P s \<and> (pool_ok (n - 1) f' \<and> \<not> tx_minimal tx)) s'"
    by (simp add: call_factory_def)
qed

subsection \<open>The run on the plain instance reaches the return\<close>

lemma proceeds_first_txs:
  assumes "list_all spendable_block blocks"
    and "\<And>pool. pool_ok (length blocks) \<lparr>spendable_outputs = pool, fundings = []\<rparr>
           \<Longrightarrow> proceeds (g pool) P Q"
  shows "proceeds (\<lambda>s. case first_txs blocks of Inl e \<Rightarrow> Raised e s | Inr pool \<Rightarrow> g pool s) P Q"
proof -
  from first_txs_progress [OF assms(1)] obtain pool where
    p: "first_txs blocks = Inr pool" "length pool = length blocks"
      "list_all (\<lambda>t. vout t \<noteq> []) pool"
    by blast
  then have "pool_ok (length blocks) \<lparr>spendable_outputs = pool, fundings = []\<rparr>"
    by (simp add: pool_ok_def)
  from assms(2) [OF this] p(1) show ?thesis by simp
qed

lemma loop_early:
  assumes "map nTime blocks = loop_times t (replicate k None)" and "t + int k \<le> 1573000100"
  shows "list_all (\<lambda>b. plain_early (nTime b)) blocks"
  unfolding list_all_iff
proof
  fix b assume "b \<in> set blocks"
  then have "nTime b \<in> set (map nTime blocks)" by simp
  then have "nTime b \<in> set (map (\<lambda>i. t + 1 + int i) [0..<k])"
    by (simp only: assms(1) loop_times_None)
  then obtain i where "i < k" "nTime b = t + 1 + int i" by auto
  with assms(2) show "plain_early (nTime b)" by (simp add: plain_early_def)
qed

lemma plain_setup_blocks:
  "proceeds (setup_blocks plain_framework) (plain_state (\<lambda>_. True) (chain_early 11))
     (\<lambda>(tip, spendable) s. plain_state (known plain_framework tip) (chain_early 122) s
        \<and> (nTime tip = 1573000003
             \<and> pool_ok 10 \<lparr>spendable_outputs = spendable, fundings = []\<rparr>))"
  unfolding setup_blocks_def [abs_def]
  apply (rule proceeds_then, rule plain_generate)
  apply (rule proceeds_then, rule plain_bootstrap)
  apply (rule proceeds_then, rule plain_getbestblock)
  apply (rule proceeds_pure)
  apply (rule proceeds_then, rule plain_log)
  apply (rule proceeds_then, rule plain_build_loop)
  apply (rule proceeds_case_prod, rule proceeds_pure, elim conjE)
  apply (rule proceeds_then, rule plain_send_early)
    apply (rule loop_early, assumption, simp)
   apply (simp add: expected_result_def)
  apply (rule proceeds_first_txs, simp)
  apply (rule proceeds_then, rule plain_log)
  apply (rule proceeds_then, rule plain_generate)
  apply (rule proceeds_then, rule plain_getbestblock)
  apply (rule proceeds_pure)
  apply (rule proceeds_done)
  apply simp
  done

lemma plain_fund_fixtures:
  assumes "pool_ok 10 \<lparr>spendable_outputs = spendable, fundings = []\<rparr>"
    and "nTime tip = 1573000003"
  shows "proceeds (fund_fixtures plain_framework tip spendable)
           (plain_state (known plain_framework tip) (chain_early 122))
           (\<lambda>(tip', tx1, tx2, tx3) s.
              plain_state (known plain_framework tip') (chain_early 123) s
              \<and> (nTime tip' = 1573000004
                   \<and> \<not> tx_minimal tx1 \<and> \<not> tx_minimal tx2 \<and> \<not> tx_minimal tx3))"
  unfolding fund_fixtures_def [abs_def]
  apply (rule proceeds_then, rule plain_log)
  apply (rule proceeds_then, rule plain_factory [OF assms(1)], simp)
  apply (rule proceeds_case_prod, rule proceeds_pure, elim conjE)
  apply (rule proceeds_then, rule plain_factory, assumption, simp)
  apply (rule proceeds_case_prod, rule proceeds_pure, elim conjE)
  apply (rule proceeds_then, rule plain_factory, assumption, simp)
  apply (rule proceeds_case_prod, rule proceeds_pure, elim conjE)
  apply (rule proceeds_then, rule plain_build_block)
  apply (rule proceeds_case_prod, rule proceeds_pure, elim conjE exE)
  apply (rule proceeds_then, rule plain_send_early)
    apply (simp add: plain_nTime plain_early_def assms(2))
   apply (simp add: expected_result_def)
  apply (rule proceeds_done)
  apply (simp add: plain_nTime assms(2))
  done

lemma plain_preupgrade_tests:
  assumes "\<not> tx_minimal tx1" and "\<not> tx_minimal tx2" and "\<not> tx_minimal tx3"
    and "nTime tip = 1573000004"
  shows "proceeds (preupgrade_tests plain_framework tip tx1 tx2 tx3)
           (plain_state (known plain_framework tip) (chain_early 123))
           (\<lambda>tip'. plain_state (known plain_framework tip') (chain_early 124))"
  unfolding preupgrade_tests_def [abs_def]
  apply (rule proceeds_then, rule plain_log)
  apply (rule proceeds_then, rule plain_log)
  apply (rule proceeds_then, rule plain_rpc_rejected [OF assms(1)])
  apply (rule proceeds_then, rule plain_rpc_rejected [OF assms(2)])
  apply (rule proceeds_then, rule plain_rpc_rejected [OF assms(3)])
  apply (rule proceeds_then, rule plain_log)
  apply (rule proceeds_then, rule plain_tx_rejected [OF assms(1)])
  apply (rule proceeds_then, rule plain_tx_rejected [OF assms(2)])
  apply (rule proceeds_then, rule plain_tx_rejected [OF assms(3)])
  apply (rule proceeds_then, rule plain_mempool)
  apply (rule proceeds_then, rule plain_log)
  apply (rule proceeds_then, rule plain_build_block)
  apply (rule proceeds_case_prod, rule proceeds_pure, elim conjE exE)
  apply (rule proceeds_then, rule plain_send_early)
    apply (simp add: plain_nTime plain_early_def assms(4))
   apply (simp add: expected_result_def)
  apply (rule proceeds_done)
  apply simp
  done

lemma plain_approach_activation:
  "proceeds (approach_activation plain_framework tip)
     (plain_state (known plain_framework tip) (chain_early 124))
     (\<lambda>tip' s. plain_state (known plain_framework tip') (chain_crossed crossing_times) s
        \<and> nTime tip' = NOV2019_START_TIME + 4)"
  unfolding approach_activation_def [abs_def]
  apply (rule proceeds_then, rule plain_log)
  apply (rule proceeds_then, rule plain_setmocktime)
  apply (rule proceeds_then, rule plain_build_loop)
  apply (rule proceeds_case_prod, rule proceeds_pure, elim conjE)
  apply (rule proceeds_then, rule plain_send_crossing)
    apply (simp add: loop_times_Some)
   apply (simp add: expected_result_def)
  apply (rule proceeds_then, rule plain_mediantime_crossed)
  apply (rule proceeds_done)
  apply (simp add: loop_times_Some crossing_times_def)
  done

lemma plain_mine_activation_block:
  assumes "nTime tip = NOV2019_START_TIME + 4"
  shows "proceeds (mine_activation_block plain_framework tip tx2)
           (plain_state (known plain_framework tip) (chain_crossed crossing_times))
           (\<lambda>tip'. plain_state (known plain_framework tip')
                      (chain_crossed (crossing_times @ [NOV2019_START_TIME + 5])))"
  unfolding mine_activation_block_def [abs_def]
  apply (rule proceeds_then, rule plain_log)
  apply (rule proceeds_then, rule plain_build_block)
  apply (rule proceeds_case_prod, rule proceeds_pure, elim conjE exE)
  apply (rule proceeds_then, rule plain_send_activation)
   apply (simp add: expected_result_def)
  apply (rule proceeds_then, rule plain_log)
  apply (rule proceeds_then, rule plain_mediantime_activated)
   apply (simp add: plain_nTime assms)
  apply (rule proceeds_done)
  apply (simp add: plain_nTime assms add.commute)
  done

lemma plain_post_activation:
  assumes "\<not> tx_minimal tx3"
  shows "returns (post_activation plain_framework tip tx3)
           (plain_state (known plain_framework tip)
              (chain_crossed (crossing_times @ [NOV2019_START_TIME + 5])))"
  unfolding post_activation_def [abs_def]
  apply (rule returns_then, rule plain_log)
  apply (rule returns_then, rule plain_build_block)
  apply (rule returns_case_prod, rule returns_pure, elim conjE exE)
  apply (rule returns_then, rule plain_send_rejected)
    apply simp
   apply (simp add: block_minimal_def plain_built_vtx assms)
  apply (rule returns_Returned)
  done

lemma plain_returns: "\<exists>s. run_test plain_framework = Returned s"
proof -
  have "returns (\<lambda>s. then_do (setup_blocks plain_framework s) (\<lambda>(tip, spendable) s.
     then_do (fund_fixtures plain_framework tip spendable s)
       (\<lambda>(tip, nonminimaltx, nonminimaltx_2, nonminimaltx_3) s.
     then_do (preupgrade_tests plain_framework tip nonminimaltx nonminimaltx_2 nonminimaltx_3 s)
       (\<lambda>tip s.
     then_do (approach_activation plain_framework tip s) (\<lambda>tip s.
     then_do (mine_activation_block plain_framework tip nonminimaltx_2 s) (\<lambda>tip s.
     then_do (post_activation plain_framework tip nonminimaltx_3 s) (\<lambda>tip s.
     after_return plain_framework tip nonminimaltx_3 s)))))))
       (plain_state (\<lambda>_. True) (chain_early 11))"
    apply (rule returns_then, rule plain_setup_blocks)
    apply (rule returns_case_prod, rule returns_pure, elim conjE)
    apply (rule returns_then, rule plain_fund_fixtures, assumption, assumption)
    apply (rule returns_case_prod)+
    apply (rule returns_pure, elim conjE)
    apply (rule returns_then, rule plain_preupgrade_tests, assumption, assumption, assumption,
           assumption)
    apply (rule returns_then, rule plain_approach_activation)
    apply (rule returns_pure)
    apply (rule returns_then, rule plain_mine_activation_block, assumption)
    apply (rule returns_first, rule plain_post_activation, assumption)
    done
  moreover have "plain_state (\<lambda>_. True) (chain_early 11) initial_state"
    by (simp add: plain_state_def chain_early_def initial_state_def plain_chain_def
          plain_old_times_def plain_early_def)
  ultimately show ?thesis
    by (simp add: returns_def run_test_def)
qed

lemma plain_run: "run_test plain_framework = Returned plain_final"
proof -
  from plain_returns obtain s where "run_test plain_framework = Returned s" by blast
  then show ?thesis by (simp add: plain_final_def)
qed

lemma create_many_3:
  assumes "create_many env 3 f0 = Inr ([tx1, tx2, tx3], f)"
  shows "\<exists>f1 f2. create_fund_and_spend_tx env f0 = Inr (tx1, f1)
           \<and> create_fund_and_spend_tx env f1 = Inr (tx2, f2)
           \<and> create_fund_and_spend_tx env f2 = Inr (tx3, f)"
  using assms by (auto simp: numeral_3_eq_3 split: sum.splits)

subsection \<open>What the scenario expects of the blocks at the activation\<close>

lemma boundary_events_scenario:
  "boundary_events (scenario_trace blocks tx1 tx2 tx3 funding_block fixture_block
       crossing_blocks activation_block rejected_block) =
     [Assert_equal_mediantime (NOV2019_START_TIME - 1),
      Logging_info ''Mine the activation block itself, including a minimaldata violation at the last possible moment'',
      Send_blocks_and_test [activation_block] None None None,
      Logging_info ''We have activated!'']"
  by (simp add: boundary_events_def scenario_trace_def)

lemma after_activation_scenario:
  "after_activation (scenario_trace blocks tx1 tx2 tx3 funding_block fixture_block
       crossing_blocks activation_block rejected_block) =
     [Assert_equal_mediantime NOV2019_START_TIME,
      Logging_info ''Trying to mine a minimaldata violation, but we are just barely too late'',
      Send_blocks_and_test [rejected_block] (Some False) (Some True) (Some BADSIGNATURE_ERROR)]"
  by (simp add: after_activation_def scenario_trace_def)

lemma activation_block_submission:
  assumes "run_test env = Returned s"
  shows "\<exists>crossing_blocks tx2 h activation_block f f'.
           length crossing_blocks = 6
           \<and> create_fund_and_spend_tx env f = Inr (tx2, f')
           \<and> activation_block = built_block env (last crossing_blocks) h [tx2] None
           \<and> boundary_events (trace s) =
               [Assert_equal_mediantime (NOV2019_START_TIME - 1),
                Logging_info ''Mine the activation block itself, including a minimaldata violation at the last possible moment'',
                Send_blocks_and_test [activation_block] None None None,
                Logging_info ''We have activated!'']
           \<and> block_expectations (boundary_events (trace s)) = [Accepted]"
proof -
  from run_test_Returned [OF assms] obtain blocks spendable f tx1 tx2 tx3 funding_block
    fixture_block crossing_blocks activation_block rejected_block h3 where
    c: "create_many env 3 \<lparr>spendable_outputs = spendable, fundings = []\<rparr>
          = Inr ([tx1, tx2, tx3], f)" and
    l: "length crossing_blocks = 6" and
    a: "activation_block = built_block env (last crossing_blocks) h3 [tx2] None" and
    t: "trace s = scenario_trace blocks tx1 tx2 tx3 funding_block fixture_block
                    crossing_blocks activation_block rejected_block"
    by auto
  from create_many_3 [OF c] obtain f1 f2 where
    f: "create_fund_and_spend_tx env f1 = Inr (tx2, f2)" by auto
  show ?thesis
    apply (rule exI [of _ crossing_blocks], rule exI [of _ tx2], rule exI [of _ h3])
    apply (rule exI [of _ activation_block], rule exI [of _ f1], rule exI [of _ f2])
    using l a f t
    by (simp add: boundary_events_scenario block_expectations_def expected_result_def)
qed

lemma rejected_block_submission:
  assumes "run_test env = Returned s"
  shows "\<exists>pre activation_block tx3 h rejected_block f f'.
           create_fund_and_spend_tx env f = Inr (tx3, f')
           \<and> rejected_block = built_block env activation_block h [tx3] None
           \<and> block_heights s (sha256 rejected_block) = Some h
           \<and> trace s = pre @
               [Send_blocks_and_test [activation_block] None None None,
                Logging_info ''We have activated!'',
                Assert_equal_mediantime NOV2019_START_TIME,
                Logging_info ''Trying to mine a minimaldata violation, but we are just barely too late'',
                Send_blocks_and_test [rejected_block] (Some False) (Some True)
                  (Some ''bad-blk-signatures'')]
           \<and> block_expectations (after_activation (trace s))
                = [RejectedWithBan (Some ''bad-blk-signatures'')]"
proof -
  from run_test_Returned [OF assms] obtain blocks spendable f tx1 tx2 tx3 funding_block
    fixture_block crossing_blocks activation_block rejected_block h4 where
    c: "create_many env 3 \<lparr>spendable_outputs = spendable, fundings = []\<rparr>
          = Inr ([tx1, tx2, tx3], f)" and
    r: "rejected_block = built_block env activation_block h4 [tx3] None" and
    h: "block_heights s (sha256 rejected_block) = Some h4" and
    t: "trace s = scenario_trace blocks tx1 tx2 tx3 funding_block fixture_block
                    crossing_blocks activation_block rejected_block"
    by auto
  from create_many_3 [OF c] obtain f2 where
    f: "create_fund_and_spend_tx env f2 = Inr (tx3, f)" by auto
  show ?thesis
    apply (rule exI [of _ "take 25 (trace s)"])
    apply (rule exI [of _ activation_block], rule exI [of _ tx3], rule exI [of _ h4])
    apply (rule exI [of _ rejected_block], rule exI [of _ f2], rule exI [of _ f])
    using r h f t
    by (simp add: after_activation_scenario block_expectations_def expected_result_def
          BADSIGNATURE_ERROR_def)
       (simp add: scenario_trace_def BADSIGNATURE_ERROR_def)
qed

lemma rejected_block_verdict:
  assumes "run_test env = Returned s"
  shows "\<exists>pre before activation_block tx3 h rejected_block f f'.
           create_fund_and_spend_tx env f = Inr (tx3, f')
           \<and> rejected_block = built_block env activation_block h [tx3] None
           \<and> block_heights s (sha256 rejected_block) = Some h
           \<and> before = pre @
               [Send_blocks_and_test [activation_block] None None None,
                Logging_info ''We have activated!'',
                Assert_equal_mediantime NOV2019_START_TIME,
                Logging_info ''Trying to mine a minimaldata violation, but we are just barely too late'']
           \<and> trace s = before @
               [Send_blocks_and_test [rejected_block] (Some False) (Some True)
                  (Some ''bad-blk-signatures'')]
           \<and> block_expectations (after_activation (trace s))
                = [RejectedWithBan (Some ''bad-blk-signatures'')]
           \<and> blocks_outcome env pre [activation_block] = Accepted
           \<and> mediantime env
                (pre @ [Send_blocks_and_test [activation_block] None None None,
                        Logging_info ''We have activated!'']) = NOV2019_START_TIME
           \<and> blocks_outcome env before [rejected_block]
                = RejectedWithBan (Some ''bad-blk-signatures'')
           \<and> peer_connection_closed (blocks_outcome env before [rejected_block])
           \<and> ''bad-blk-signatures'' \<noteq> MINIMALPUSH_ERROR"
proof -
  from rejected_block_submission [OF assms] obtain pre activation_block tx3 h rejected_block
    f f' where
    a: "create_fund_and_spend_tx env f = Inr (tx3, f')"
       "rejected_block = built_block env activation_block h [tx3] None"
       "block_heights s (sha256 rejected_block) = Some h"
       "block_expectations (after_activation (trace s))
                = [RejectedWithBan (Some ''bad-blk-signatures'')]" and
    t: "trace s = pre @
               [Send_blocks_and_test [activation_block] None None None,
                Logging_info ''We have activated!'',
                Assert_equal_mediantime NOV2019_START_TIME,
                Logging_info ''Trying to mine a minimaldata violation, but we are just barely too late'',
                Send_blocks_and_test [rejected_block] (Some False) (Some True)
                  (Some ''bad-blk-signatures'')]"
    by blast
  let ?before = "pre @
               [Send_blocks_and_test [activation_block] None None None,
                Logging_info ''We have activated!'',
                Assert_equal_mediantime NOV2019_START_TIME,
                Logging_info ''Trying to mine a minimaldata violation, but we are just barely too late'']"
  from run_test_Returned [OF assms] have "checks_from env [] (trace s)" by blast
  then have c: "checks_from env []
                  (pre @ [Send_blocks_and_test [activation_block] None None None,
                          Logging_info ''We have activated!'',
                          Assert_equal_mediantime NOV2019_START_TIME,
                          Logging_info ''Trying to mine a minimaldata violation, but we are just barely too late'',
                          Send_blocks_and_test [rejected_block] (Some False) (Some True)
                            (Some ''bad-blk-signatures'')])"
    by (simp only: t)
  then have p1: "passes env pre (Send_blocks_and_test [activation_block] None None None)"
    and p2: "passes env
               (pre @ [Send_blocks_and_test [activation_block] None None None,
                       Logging_info ''We have activated!''])
               (Assert_equal_mediantime NOV2019_START_TIME)"
    and p3: "passes env ?before
               (Send_blocks_and_test [rejected_block] (Some False) (Some True)
                  (Some ''bad-blk-signatures''))"
    by (simp_all add: checks_from_append)
  from p1 have o1: "blocks_outcome env pre [activation_block] = Accepted"
    by (simp add: expected_result_def)
  from p2 have o2: "mediantime env
                (pre @ [Send_blocks_and_test [activation_block] None None None,
                        Logging_info ''We have activated!'']) = NOV2019_START_TIME"
    by simp
  from p3 have o3: "blocks_outcome env ?before [rejected_block]
                = RejectedWithBan (Some ''bad-blk-signatures'')"
    by (simp add: expected_result_def split: submission_result.splits)
  show ?thesis
    apply (rule exI [of _ pre], rule exI [of _ ?before], rule exI [of _ activation_block])
    apply (rule exI [of _ tx3], rule exI [of _ h], rule exI [of _ rejected_block])
    apply (rule exI [of _ f], rule exI [of _ f'])
    using a t o1 o2 o3 by (simp add: MINIMALPUSH_ERROR_def)
qed

subsection \<open>The events of every run\<close>

lemma keeps_then:
  assumes "keeps_events A m" and "\<And>a. keeps_events A (f a)"
  shows "keeps_events A (\<lambda>s. then_do (m s) f)"
  unfolding keeps_events_def
proof (intro allI impI)
  fix s :: test_state
  assume s: "list_all A (trace s)"
  with assms(1) have m: "list_all A (trace (final_state (m s)))"
    unfolding keeps_events_def by blast
  show "list_all A (trace (final_state (then_do (m s) f)))"
  proof (cases "m s")
    case (Continue a s1)
    with m assms(2) [of a] show ?thesis unfolding keeps_events_def by simp
  next
    case (Returned s1)
    with m show ?thesis by simp
  next
    case (Raised e s1)
    with m show ?thesis by simp
  qed
qed

lemma keeps_call: "A e \<Longrightarrow> keeps_events A (call env e)"
  by (simp add: keeps_events_def call_def)

lemma keeps_getbestblock: "keeps_events A (call_getbestblock env)"
  by (simp add: keeps_events_def call_getbestblock_eq getbestblock_trace)

lemma keeps_build_block: "keeps_events A (call_build_block env tip txs t)"
  by (auto simp: keeps_events_def call_build_block_def build_block_Inr split: sum.splits)

lemma keeps_factory: "keeps_events A (call_factory env f)"
  by (auto simp: keeps_events_def call_factory_def split: sum.splits)

lemma keeps_Continue: "keeps_events A (Continue a)"
  by (simp add: keeps_events_def)

lemma keeps_Returned: "keeps_events A Returned"
  by (simp add: keeps_events_def)

lemma keeps_case_prod:
  assumes "\<And>x y. keeps_events A (F x y)"
  shows "keeps_events A (case_prod F a)"
  using assms by (cases a) simp

lemma keeps_case_sum:
  assumes "\<And>x. keeps_events A (g x)"
  shows "keeps_events A (\<lambda>s. case r of Inl e \<Rightarrow> Raised e s | Inr x \<Rightarrow> g x s)"
  using assms by (cases r) (simp_all add: keeps_events_def)

lemma keeps_build_loop: "keeps_events A (build_loop env ts tip blocks)"
proof (induction ts arbitrary: tip blocks)
  case Nil
  show ?case by (simp add: keeps_events_def)
next
  case (Cons t ts)
  have "keeps_events A (\<lambda>s. then_do (call_build_block env tip [] t s) (\<lambda>(parent, tip) s.
       build_loop env ts tip
         ((if blocks = [] then [] else butlast blocks @ [parent]) @ [tip]) s))"
    by (intro keeps_then keeps_build_block keeps_case_prod Cons.IH)
  then show ?case by (simp add: keeps_events_def)
qed

lemma keeps_first:
  assumes "keeps_events A m" and "\<And>s a s'. m s \<noteq> Continue a s'"
  shows "keeps_events A (\<lambda>s. then_do (m s) f)"
  unfolding keeps_events_def
proof (intro allI impI)
  fix s :: test_state
  assume "list_all A (trace s)"
  with assms(1) have m: "list_all A (trace (final_state (m s)))"
    unfolding keeps_events_def by blast
  show "list_all A (trace (final_state (then_do (m s) f)))"
  proof (cases "m s")
    case (Continue a s1)
    with assms(2) [of s a s1] show ?thesis by simp
  next
    case (Returned s1)
    with m show ?thesis by simp
  next
    case (Raised e s1)
    with m show ?thesis by simp
  qed
qed

lemmas keeps_intros =
  keeps_then keeps_call keeps_getbestblock keeps_build_block keeps_factory keeps_Continue
  keeps_Returned keeps_case_prod keeps_case_sum keeps_build_loop

lemma keeps_setup_blocks: "keeps_events before_return (setup_blocks env)"
  unfolding setup_blocks_def [abs_def] bootstrap_p2p_def [abs_def]
  by (intro keeps_intros) (simp_all add: before_return_def)

lemma keeps_fund_fixtures: "keeps_events before_return (fund_fixtures env tip spendable)"
  unfolding fund_fixtures_def [abs_def]
  by (intro keeps_intros) (simp_all add: before_return_def)

lemma keeps_preupgrade_tests:
  "keeps_events before_return (preupgrade_tests env tip tx1 tx2 tx3)"
  unfolding preupgrade_tests_def [abs_def] check_for_no_ban_on_rejected_tx_def [abs_def]
  by (intro keeps_intros) (simp_all add: before_return_def)

lemma keeps_approach_activation: "keeps_events before_return (approach_activation env tip)"
  unfolding approach_activation_def [abs_def]
  by (intro keeps_intros) (simp_all add: before_return_def)

lemma keeps_mine_activation_block:
  "keeps_events before_return (mine_activation_block env tip tx2)"
  unfolding mine_activation_block_def [abs_def]
  by (intro keeps_intros) (simp_all add: before_return_def)

lemma keeps_post_activation: "keeps_events before_return (post_activation env tip tx3)"
  unfolding post_activation_def [abs_def] check_for_ban_on_rejected_block_def [abs_def]
  by (intro keeps_intros) (simp_all add: before_return_def)

lemma run_test_before_return: "list_all before_return (trace (final_state (run_test env)))"
proof -
  have "keeps_events before_return (\<lambda>s. then_do (setup_blocks env s) (\<lambda>(tip, spendable) s.
     then_do (fund_fixtures env tip spendable s)
       (\<lambda>(tip, nonminimaltx, nonminimaltx_2, nonminimaltx_3) s.
     then_do (preupgrade_tests env tip nonminimaltx nonminimaltx_2 nonminimaltx_3 s) (\<lambda>tip s.
     then_do (approach_activation env tip s) (\<lambda>tip s.
     then_do (mine_activation_block env tip nonminimaltx_2 s) (\<lambda>tip s.
     then_do (post_activation env tip nonminimaltx_3 s) (\<lambda>tip s.
     after_return env tip nonminimaltx_3 s)))))))"
    apply (rule keeps_then, rule keeps_setup_blocks, rule keeps_case_prod)
    apply (rule keeps_then, rule keeps_fund_fixtures, (rule keeps_case_prod)+)
    apply (rule keeps_then, rule keeps_preupgrade_tests)
    apply (rule keeps_then, rule keeps_approach_activation)
    apply (rule keeps_then, rule keeps_mine_activation_block)
    apply (rule keeps_first, rule keeps_post_activation, simp)
    done
  then show ?thesis
    by (simp add: keeps_events_def run_test_def initial_state_def)
qed

lemma after_return_raises:
  "after_return env tip tx3 s = Raised TypeError
     (s\<lparr>trace := trace s @
        [Logging_info ''If we try to submit it by mempool or RPC we still aren't banned'']\<rparr>)"
  by (simp add: after_return_def rpc_error_def call_def)

lemma post_activation_ends:
  "then_do (post_activation env tip tx3 s) f = post_activation env tip tx3 s"
  by (cases "post_activation env tip tx3 s") simp_all

lemma standalone_checks:
  assumes "run_test env = Returned s"
  shows "standalone_expectations (trace s) = replicate 6 (RejectedNoBan (Some MINIMALPUSH_ERROR))
         \<and> rpc_codes (trace s) = [-26, -26, -26]
         \<and> Assert_equal_getrawmempool [] \<in> set (trace s)
         \<and> standalone_expectations (after_activation (trace s)) = []"
proof -
  from run_test_Returned [OF assms] obtain blocks tx1 tx2 tx3 funding_block
    fixture_block crossing_blocks activation_block rejected_block where
    t: "trace s = scenario_trace blocks tx1 tx2 tx3 funding_block fixture_block
                    crossing_blocks activation_block rejected_block"
    by auto
  have "standalone_expectations (trace s) = replicate 6 (RejectedNoBan (Some MINIMALPUSH_ERROR))"
    unfolding t by (simp add: scenario_trace_def standalone_expectations_def expected_result_def
                      numeral_eq_Suc)
  moreover have "rpc_codes (trace s) = [-26, -26, -26]"
    unfolding t by (simp add: scenario_trace_def rpc_codes_def)
  moreover have "standalone_expectations (after_activation (trace s)) = []"
    unfolding t by (simp add: after_activation_scenario standalone_expectations_def)
  moreover have "Assert_equal_getrawmempool [] \<in> set (trace s)"
    unfolding t by (simp add: scenario_trace_def)
  ultimately show ?thesis by simp
qed


section \<open>The claims on the scenario\<close>

text \<open>
  C1, as the code has it. In a run that reaches the \<^verbatim>\<open>return\<close>, the one block sent
  between the assertion that the median time past is the activation time less one and the
  assertion that it is the activation time is built on the last of the six blocks of the
  run and carries a fixture of the factory. It is sent with no keyword, as the block with
  the first fixture was before: the call expects the node to accept it. The old rule still
  holds for this block, and the new one from the block after it.
\<close>

theorem activation_block_expected_accepted:
  assumes "run_test env = Returned s"
  shows "\<exists>crossing_blocks tx2 h activation_block f f'.
           length crossing_blocks = 6
           \<and> create_fund_and_spend_tx env f = Inr (tx2, f')
           \<and> activation_block = built_block env (last crossing_blocks) h [tx2] None
           \<and> boundary_events (trace s) =
               [Assert_equal_mediantime (NOV2019_START_TIME - 1),
                Logging_info ''Mine the activation block itself, including a minimaldata violation at the last possible moment'',
                Send_blocks_and_test [activation_block] None None None,
                Logging_info ''We have activated!'']
           \<and> block_expectations (boundary_events (trace s)) = [Accepted]"
  using activation_block_submission [OF assms] .

theorem activation_block_expected_accepted_witness:
  "run_test plain_framework = Returned plain_final
   \<and> block_expectations (boundary_events (trace plain_final)) = [Accepted]"
  using activation_block_expected_accepted [OF plain_run] plain_run by auto

text \<open>
  C1, as the claim words it, fails: on the plain instance the block that brings the median
  time past to the activation time is expected to be accepted, and the expectation of a
  rejection with a ban is that of the block after it.
\<close>

theorem activation_block_counterexample:
  "block_expectations (boundary_events (trace plain_final)) = [Accepted]
   \<and> block_expectations (after_activation (trace plain_final))
       = [RejectedWithBan (Some BADSIGNATURE_ERROR)]
   \<and> Accepted \<noteq> RejectedWithBan (Some BADSIGNATURE_ERROR)"
  using activation_block_submission [OF plain_run] rejected_block_submission [OF plain_run]
  by (auto simp: BADSIGNATURE_ERROR_def)

text \<open>
  C2. \<^verbatim>\<open>check_for_ban_on_rejected_block\<close> goes on exactly when the outcome the peer
  observes for the block is a rejection with a ban, for the reason given, and raises an
  \<^verbatim>\<open>AssertionError\<close> on any other outcome. So in every run that reaches the
  \<^verbatim>\<open>return\<close>, whatever the framework and the node: the last call sends a block built
  on the activation block, one block past it, that carries a fixture of the factory; the
  node has reported the activation time as median time past before; and the outcome
  observed for that block is RejectedWithBan with the reason \<^verbatim>\<open>bad-blk-signatures\<close>,
  which is not the reason of \<^verbatim>\<open>MINIMALPUSH_ERROR\<close>, the peer's connection closed,
  where the block before it, the activation block, was accepted. It is the only block sent
  once the median time past is asserted to be the activation time.
\<close>

theorem post_activation_block_rejected_with_ban:
  assumes "run_test env = Returned s"
  shows "(\<exists>pre before activation_block tx3 h rejected_block f f'.
           create_fund_and_spend_tx env f = Inr (tx3, f')
           \<and> rejected_block = built_block env activation_block h [tx3] None
           \<and> block_heights s (sha256 rejected_block) = Some h
           \<and> before = pre @
               [Send_blocks_and_test [activation_block] None None None,
                Logging_info ''We have activated!'',
                Assert_equal_mediantime NOV2019_START_TIME,
                Logging_info ''Trying to mine a minimaldata violation, but we are just barely too late'']
           \<and> trace s = before @
               [Send_blocks_and_test [rejected_block] (Some False) (Some True)
                  (Some ''bad-blk-signatures'')]
           \<and> block_expectations (after_activation (trace s))
                = [RejectedWithBan (Some ''bad-blk-signatures'')]
           \<and> blocks_outcome env pre [activation_block] = Accepted
           \<and> mediantime env
                (pre @ [Send_blocks_and_test [activation_block] None None None,
                        Logging_info ''We have activated!'']) = NOV2019_START_TIME
           \<and> blocks_outcome env before [rejected_block]
                = RejectedWithBan (Some ''bad-blk-signatures'')
           \<and> peer_connection_closed (blocks_outcome env before [rejected_block])
           \<and> ''bad-blk-signatures'' \<noteq> MINIMALPUSH_ERROR)
         \<and> check_for_ban_on_rejected_block env block (Some reason) s0 =
             (if blocks_outcome env (trace s0) [block] = RejectedWithBan (Some reason)
              then Continue ()
                     (s0\<lparr>trace := trace s0 @
                        [Send_blocks_and_test [block] (Some False) (Some True) (Some reason)]\<rparr>)
              else Raised AssertionError
                     (s0\<lparr>trace := trace s0 @
                        [Send_blocks_and_test [block] (Some False) (Some True) (Some reason)]\<rparr>))"
proof -
  have "check_for_ban_on_rejected_block env block (Some reason) s0 =
             (if blocks_outcome env (trace s0) [block] = RejectedWithBan (Some reason)
              then Continue ()
                     (s0\<lparr>trace := trace s0 @
                        [Send_blocks_and_test [block] (Some False) (Some True) (Some reason)]\<rparr>)
              else Raised AssertionError
                     (s0\<lparr>trace := trace s0 @
                        [Send_blocks_and_test [block] (Some False) (Some True) (Some reason)]\<rparr>))"
    by (simp add: check_for_ban_on_rejected_block_def call_def expected_result_def
          split: submission_result.splits)
  with rejected_block_verdict [OF assms] show ?thesis by simp
qed

theorem post_activation_block_rejected_with_ban_witness:
  "run_test plain_framework = Returned plain_final
   \<and> trace plain_final \<noteq> []
   \<and> blocks_outcome plain_framework (butlast (trace plain_final))
        (sent_blocks (last (trace plain_final)))
       = RejectedWithBan (Some ''bad-blk-signatures'')
   \<and> peer_connection_closed
        (blocks_outcome plain_framework (butlast (trace plain_final))
           (sent_blocks (last (trace plain_final))))
   \<and> block_expectations (after_activation (trace plain_final))
       = [RejectedWithBan (Some ''bad-blk-signatures'')]
   \<and> (\<forall>s. run_test accepting_framework \<noteq> Returned s)"
proof -
  from post_activation_block_rejected_with_ban [OF plain_run] obtain before rejected_block where
    t: "trace plain_final = before @
               [Send_blocks_and_test [rejected_block] (Some False) (Some True)
                  (Some ''bad-blk-signatures'')]" and
    e: "block_expectations (after_activation (trace plain_final))
                = [RejectedWithBan (Some ''bad-blk-signatures'')]" and
    o: "blocks_outcome plain_framework before [rejected_block]
                = RejectedWithBan (Some ''bad-blk-signatures'')"
    by blast
  have n: "\<forall>s. run_test accepting_framework \<noteq> Returned s"
  proof (intro allI notI)
    fix s assume r: "run_test accepting_framework = Returned s"
    from post_activation_block_rejected_with_ban [OF r] obtain before' block' where
      "blocks_outcome accepting_framework before' [block']
         = RejectedWithBan (Some ''bad-blk-signatures'')"
      by blast
    then show False by (simp add: accepting_framework_def)
  qed
  from t e o n plain_run show ?thesis by simp
qed

text \<open>
  C3, on the run of the plain instance. The six transactions sent on their own, three by
  \<^verbatim>\<open>sendrawtransaction\<close> with code -26 and three over the peer connection, are all
  expected to be rejected without a ban for the reason of \<^verbatim>\<open>MINIMALPUSH_ERROR\<close>, and
  the mempool is asserted to be empty; all six come before the activation, and from the
  activation on the run sends no transaction on its own.
\<close>

theorem no_standalone_check_after_activation:
  "run_test plain_framework = Returned plain_final
   \<and> standalone_expectations (trace plain_final)
       = replicate 6 (RejectedNoBan (Some MINIMALPUSH_ERROR))
   \<and> rpc_codes (trace plain_final) = [-26, -26, -26]
   \<and> Assert_equal_getrawmempool [] \<in> set (trace plain_final)
   \<and> standalone_expectations (after_activation (trace plain_final)) = []"
  using standalone_checks [OF plain_run] plain_run by simp




text \<open>
  C9. Whatever the framework and the node do, and wherever the run ends, the trace never
  holds one of the two messages logged after the \<^verbatim>\<open>return\<close> of line 248: the
  statements that follow the check of the post-activation block are never run. What
  \<^verbatim>\<open>run_test\<close> does from that check on ends where the check ends, which never hands
  over to a next statement; the statements after it, had they run, would have logged the
  first of the two messages.
\<close>

theorem statements_after_return_never_run:
  "Logging_info ''If we try to submit it by mempool or RPC we still aren't banned''
     \<notin> set (trace (final_state (run_test env)))
   \<and> Logging_info ''Mine a normal block'' \<notin> set (trace (final_state (run_test env)))
   \<and> (\<forall>x s'. post_activation env tip tx3 s \<noteq> Continue x s')
   \<and> final_state (then_do (post_activation env tip tx3 s) (\<lambda>tip s. after_return env tip tx3 s))
       = final_state (post_activation env tip tx3 s)
   \<and> Logging_info ''If we try to submit it by mempool or RPC we still aren't banned''
       \<in> set (trace (final_state (after_return env tip tx3 s)))"
proof -
  from run_test_before_return [of env] have
    "\<forall>e\<in>set (trace (final_state (run_test env))). before_return e"
    by (simp add: list_all_iff)
  then have a: "Logging_info ''If we try to submit it by mempool or RPC we still aren't banned''
     \<notin> set (trace (final_state (run_test env)))"
    and b: "Logging_info ''Mine a normal block'' \<notin> set (trace (final_state (run_test env)))"
    by (auto simp: before_return_def)
  have c: "final_state (then_do (post_activation env tip tx3 s) (\<lambda>tip s. after_return env tip tx3 s))
       = final_state (post_activation env tip tx3 s)"
    by (cases "post_activation env tip tx3 s") simp_all
  from a b c show ?thesis
    by (simp add: after_return_raises)
qed


end
